theory Spec2Isabelle
  imports Complex_Main "HOL-Library.Sublist" "HOL-Library.Multiset"
begin

section \<open>Data model (models.ts)\<close>

text \<open>
  The TypeScript type \<open>number\<close> is modelled by \<^typ>\<open>real\<close>: the idealisation of an IEEE
  double without NaN, infinities and rounding. A \<open>Date\<close> is modelled by its \<open>valueOf()\<close>,
  the milliseconds since the epoch, as an \<^typ>\<open>int\<close>; comparing two dates with \<open>>=\<close> and
  \<open><=\<close> compares these numbers. A JavaScript string is modelled by \<^typ>\<open>string\<close>.
  An optional field \<open>f?: T\<close> is a \<open>T option\<close>, \<open>None\<close> standing for \<open>undefined\<close>.
\<close>

record dims =
  length_dim :: real
  width_dim :: real
  height_dim :: real

record product =
  id_prod :: string
  name :: string
  description :: string
  price :: real
  category :: string
  subcategory :: "string option"
  collection :: "string option"
  stock :: real
  isVisible :: bool
  tags :: "string list"
  sku :: "string option"
  images :: "string list option"
  weight :: "real option"
  dimensions :: "dims option"
  createdAt :: int
  updatedAt :: int

record address =
  street :: string
  city :: string
  state :: string
  zipCode :: string
  country :: string

datatype sale_status = Pending | Processing | Shipped | Delivered | Cancelled

record sale =
  id_sale :: string
  productId :: string
  productName :: string
  quantity :: real
  unitPrice :: real
  totalAmount :: real
  customerEmail :: string
  customerName :: "string option"
  shippingAddress :: "address option"
  status :: sale_status
  paymentMethod :: string
  timestamp :: int

record topProduct =
  id_top :: string
  name_top :: string
  sales_top :: real

record lowStockAlert =
  id_alert :: string
  name_alert :: string
  stock_alert :: real

record revenueByPeriod =
  daily :: real
  weekly :: real
  monthly :: real

record categoryPerf =
  category_perf :: string
  revenue :: real
  orders :: real

record storeMetrics =
  totalSales :: real
  totalOrders :: real
  avgOrderValue :: real
  topProducts :: "topProduct list"
  lowStockAlerts :: "lowStockAlert list"
  revenueByPeriod :: revenueByPeriod
  categoryPerformance :: "categoryPerf list"

record dateRange =
  start :: int
  end_range :: int

text \<open>
  \<open>StockOperation.operation\<close> is the union \<open>'add' | 'subtract' | 'set'\<close>. The fourth
  constructor stands for any run-time value outside the union, which is what the
  \<open>default\<close> branch of \<open>updateStock\<close> handles.
\<close>

datatype operation_kind = Add | Subtract | SetTo | OtherKind

record stockOperation =
  operation :: operation_kind
  quantity_op :: real
  reason :: "string option"

text \<open>
  \<open>Partial<Omit<Product, 'id' | 'createdAt'>>\<close>: every key may be absent (\<open>None\<close>).
  For an optional field of \<open>Product\<close> a present key may itself carry \<open>undefined\<close>
  (\<open>Some None\<close>), which the object spread copies over the old value. The key
  \<open>updatedAt\<close> is always overwritten by \<open>updateProduct\<close> and therefore not represented.
\<close>

record productUpdates =
  name_upd :: "string option"
  description_upd :: "string option"
  price_upd :: "real option"
  category_upd :: "string option"
  subcategory_upd :: "string option option"
  collection_upd :: "string option option"
  stock_upd :: "real option"
  isVisible_upd :: "bool option"
  tags_upd :: "string list option"
  sku_upd :: "string option option"
  images_upd :: "string list option option"
  weight_upd :: "real option option"
  dimensions_upd :: "dims option option"

section \<open>JavaScript built-ins used by the store\<close>

subsection \<open>\<open>Map\<close> and \<open>Set\<close> with insertion order\<close>

text \<open>
  A JavaScript \<open>Map\<close> iterates in insertion order; \<open>set\<close> on a key that is present
  replaces the value and keeps the position, \<open>set\<close> on a new key appends. The model is
  an association list.
\<close>

fun map_get :: "'k \<Rightarrow> ('k \<times> 'v) list \<Rightarrow> 'v option" where
  "map_get k [] = None"
| "map_get k ((k', v) # m) = (if k' = k then Some v else map_get k m)"

fun map_set :: "'k \<Rightarrow> 'v \<Rightarrow> ('k \<times> 'v) list \<Rightarrow> ('k \<times> 'v) list" where
  "map_set k v [] = [(k, v)]"
| "map_set k v ((k', v') # m) = (if k' = k then (k, v) # m else (k', v') # map_set k v m)"

fun map_delete :: "'k \<Rightarrow> ('k \<times> 'v) list \<Rightarrow> ('k \<times> 'v) list" where
  "map_delete k [] = []"
| "map_delete k ((k', v') # m) = (if k' = k then m else (k', v') # map_delete k m)"

definition map_values :: "('k \<times> 'v) list \<Rightarrow> 'v list" where
  "map_values m = map snd m"

definition map_keys :: "('k \<times> 'v) list \<Rightarrow> 'k list" where
  "map_keys m = map fst m"

definition set_add :: "'a \<Rightarrow> 'a list \<Rightarrow> 'a list" where
  "set_add x s = (if x \<in> set s then s else s @ [x])"

subsection \<open>Strings\<close>

text \<open>
  \<open>toLowerCase\<close> on the ASCII letters; other characters are left as they are.
  \<open>str_includes s t\<close> is \<open>s.includes(t)\<close>: \<open>t\<close> occurs in \<open>s\<close> as a contiguous substring.
\<close>

definition lower_char :: "char \<Rightarrow> char" where
  "lower_char c =
     (case map_of (zip ''ABCDEFGHIJKLMNOPQRSTUVWXYZ'' ''abcdefghijklmnopqrstuvwxyz'') c of
        Some d \<Rightarrow> d
      | None \<Rightarrow> c)"

definition toLowerCase :: "string \<Rightarrow> string" where
  "toLowerCase s = map lower_char s"

fun str_includes :: "string \<Rightarrow> string \<Rightarrow> bool" where
  "str_includes [] t = (t = [])"
| "str_includes (c # cs) t = (prefix t (c # cs) \<or> str_includes cs t)"

text \<open>Decimal digits of a number, as the template literal \<open>`${Date.now()}`\<close> prints them.\<close>

function show_nat :: "nat \<Rightarrow> string" where
  "show_nat n =
     (if n < 10 then [''0123456789'' ! n]
      else show_nat (n div 10) @ [''0123456789'' ! (n mod 10)])"
  by pat_completeness auto
termination
  by (relation "measure id") auto

subsection \<open>Arrays\<close>

text \<open>
  \<open>xs.slice(0, n)\<close> for an integral \<open>n\<close>: a negative end counts from the end of the
  array. \<open>xs.sort((a, b) => key b - key a)\<close> is the stable sort by descending key.
\<close>

definition slice0 :: "'a list \<Rightarrow> int \<Rightarrow> 'a list" where
  "slice0 xs n =
     (if n < 0 then take (nat (max (int (length xs) + n) 0)) xs
      else take (nat (min n (int (length xs)))) xs)"

definition sort_desc :: "('a \<Rightarrow> real) \<Rightarrow> 'a list \<Rightarrow> 'a list" where
  "sort_desc key xs = sort_key (\<lambda>x. - key x) xs"

section \<open>The store (store.ts)\<close>

text \<open>
  The state of one \<open>EcommerceDataStore\<close>. The product objects held by the map are
  values here: inside one store no two entries hold the same object (an entry is
  always stored under the \<open>id\<close> of its object), so the in-place assignment of
  \<open>updateStock\<close> is the replacement of that entry.
\<close>

record store =
  products :: "(string \<times> product) list"
  sales :: "sale list"
  categories :: "string list"
  collections :: "string list"

text \<open>
  Readings of the environment are arguments: \<open>now\<close> is what \<open>Date.now()\<close> and
  \<open>new Date()\<close> return during the call (one instant for the whole call), \<open>rnd\<close> is
  \<open>Math.random().toString(36).substr(2, 9)\<close>.
  Whether an id generated from them is still unused is a matter of the clock and the
  random source: no operation compares it with the ids already stored.
\<close>

definition show_int :: "int \<Rightarrow> string" where
  "show_int i = (if i < 0 then ''-'' @ show_nat (nat (- i)) else show_nat (nat i))"

definition gen_id :: "string \<Rightarrow> int \<Rightarrow> string \<Rightarrow> string" where
  "gen_id pre now rnd = pre @ ''-'' @ show_int now @ ''-'' @ rnd"

subsection \<open>Sample data\<close>

definition sampleProducts :: "product list" where
  "sampleProducts =
   [\<lparr>id_prod = ''12345'', name = ''Blue T-Shirt'',
      description = ''Comfortable cotton t-shirt in vibrant blue color'',
      price = 19.99, category = ''Clothing'', subcategory = None,
      collection = Some ''Summer Collection'', stock = 25, isVisible = True,
      tags = [''casual'', ''cotton'', ''blue'', ''t-shirt''], sku = Some ''BTS-001'',
      images = Some [''blue-tshirt-1.jpg'', ''blue-tshirt-2.jpg''], weight = Some 0.2,
      dimensions = Some \<lparr>length_dim = 70, width_dim = 50, height_dim = 1\<rparr>,
      createdAt = 1705276800000, updatedAt = 1717200000000\<rparr>,
    \<lparr>id_prod = ''12346'', name = ''Leather Jacket'',
      description = ''Premium genuine leather jacket with modern fit'',
      price = 249.99, category = ''Clothing'', subcategory = None,
      collection = Some ''Winter Collection'', stock = 8, isVisible = True,
      tags = [''leather'', ''jacket'', ''premium'', ''winter''], sku = Some ''LJ-002'',
      images = Some [''leather-jacket-1.jpg''], weight = Some 1.5,
      dimensions = Some \<lparr>length_dim = 65, width_dim = 55, height_dim = 3\<rparr>,
      createdAt = 1706745600000, updatedAt = 1715731200000\<rparr>,
    \<lparr>id_prod = ''12347'', name = ''Wireless Headphones'',
      description = ''High-quality wireless headphones with noise cancellation'',
      price = 199.99, category = ''Electronics'', subcategory = None,
      collection = Some ''Tech Essentials'', stock = 0, isVisible = True,
      tags = [''wireless'', ''headphones'', ''audio'', ''noise-cancellation''],
      sku = Some ''WH-003'',
      images = Some [''wireless-headphones-1.jpg'', ''wireless-headphones-2.jpg''],
      weight = Some 0.3,
      dimensions = Some \<lparr>length_dim = 20, width_dim = 18, height_dim = 8\<rparr>,
      createdAt = 1710028800000, updatedAt = 1717545600000\<rparr>,
    \<lparr>id_prod = ''12348'', name = ''Running Shoes'',
      description = ''Lightweight running shoes with superior comfort'',
      price = 129.99, category = ''Footwear'', subcategory = None,
      collection = Some ''Athletic Collection'', stock = 30, isVisible = True,
      tags = [''running'', ''shoes'', ''athletic'', ''comfortable''], sku = Some ''RS-004'',
      images = Some [''running-shoes-1.jpg''], weight = Some 0.8,
      dimensions = Some \<lparr>length_dim = 30, width_dim = 15, height_dim = 12\<rparr>,
      createdAt = 1705708800000, updatedAt = 1716163200000\<rparr>,
    \<lparr>id_prod = ''12349'', name = ''Winter Scarf'',
      description = ''Warm wool scarf perfect for cold weather'',
      price = 34.99, category = ''Accessories'', subcategory = None,
      collection = Some ''Winter Collection'', stock = 5, isVisible = True,
      tags = [''scarf'', ''wool'', ''winter'', ''warm''], sku = Some ''WS-005'',
      images = Some [''winter-scarf-1.jpg''], weight = Some 0.15,
      dimensions = Some \<lparr>length_dim = 180, width_dim = 30, height_dim = 1\<rparr>,
      createdAt = 1707955200000, updatedAt = 1716595200000\<rparr>,
    \<lparr>id_prod = ''12350'', name = ''Classic Jeans'',
      description = ''Timeless denim jeans with perfect fit'',
      price = 79.99, category = ''Clothing'', subcategory = None,
      collection = Some ''Essentials'', stock = 40, isVisible = True,
      tags = [''jeans'', ''denim'', ''classic'', ''essentials''], sku = Some ''CJ-006'',
      images = Some [''classic-jeans-1.jpg''], weight = Some 0.6,
      dimensions = Some \<lparr>length_dim = 110, width_dim = 40, height_dim = 2\<rparr>,
      createdAt = 1704844800000, updatedAt = 1717027200000\<rparr>]"

text \<open>The sample sales are dated relative to \<open>Date.now()\<close> when the module is loaded.\<close>

definition sampleSales :: "int \<Rightarrow> sale list" where
  "sampleSales loaded =
   [\<lparr>id_sale = ''sale-001'', productId = ''12345'', productName = ''Blue T-Shirt'',
      quantity = 3, unitPrice = 19.99, totalAmount = 59.97,
      customerEmail = ''john@example.com'', customerName = Some ''John Doe'',
      shippingAddress = None, status = Delivered, paymentMethod = ''credit_card'',
      timestamp = loaded - 24 * 60 * 60 * 1000\<rparr>,
    \<lparr>id_sale = ''sale-002'', productId = ''12348'', productName = ''Running Shoes'',
      quantity = 1, unitPrice = 129.99, totalAmount = 129.99,
      customerEmail = ''sarah@example.com'', customerName = Some ''Sarah Johnson'',
      shippingAddress = None, status = Shipped, paymentMethod = ''paypal'',
      timestamp = loaded - 24 * 60 * 60 * 1000\<rparr>,
    \<lparr>id_sale = ''sale-003'', productId = ''12349'', productName = ''Winter Scarf'',
      quantity = 2, unitPrice = 34.99, totalAmount = 69.98,
      customerEmail = ''mike@example.com'', customerName = Some ''Mike Wilson'',
      shippingAddress = None, status = Processing, paymentMethod = ''credit_card'',
      timestamp = loaded - 24 * 60 * 60 * 1000\<rparr>,
    \<lparr>id_sale = ''sale-004'', productId = ''12346'', productName = ''Leather Jacket'',
      quantity = 1, unitPrice = 249.99, totalAmount = 249.99,
      customerEmail = ''emma@example.com'', customerName = Some ''Emma Brown'',
      shippingAddress = None, status = Pending, paymentMethod = ''credit_card'',
      timestamp = loaded - 2 * 60 * 60 * 1000\<rparr>,
    \<lparr>id_sale = ''sale-005'', productId = ''12345'', productName = ''Blue T-Shirt'',
      quantity = 5, unitPrice = 19.99, totalAmount = 99.95,
      customerEmail = ''alex@example.com'', customerName = Some ''Alex Garcia'',
      shippingAddress = None, status = Delivered, paymentMethod = ''debit_card'',
      timestamp = loaded - 7 * 24 * 60 * 60 * 1000\<rparr>]"

subsection \<open>Construction\<close>

text \<open>
  \<open>load_product\<close> is the body of the \<open>forEach\<close> shared by
  \<open>initializeWithSampleData\<close> and \<open>importData\<close>; \<open>register\<close> is the update of the two
  tracking sets, where \<open>if (product.collection)\<close> holds for a defined, non-empty string.
\<close>

definition register :: "product \<Rightarrow> store \<Rightarrow> store" where
  "register p st =
     (let st1 = st\<lparr>categories := set_add (category p) (categories st)\<rparr>
      in case collection p of
           None \<Rightarrow> st1
         | Some c \<Rightarrow> if c = [] then st1 else st1\<lparr>collections := set_add c (collections st1)\<rparr>)"

definition load_product :: "store \<Rightarrow> product \<Rightarrow> store" where
  "load_product st p = register p (st\<lparr>products := map_set (id_prod p) p (products st)\<rparr>)"

definition empty_store :: store where
  "empty_store = \<lparr>products = [], sales = [], categories = [], collections = []\<rparr>"

definition initializeWithSampleData :: "int \<Rightarrow> store \<Rightarrow> store" where
  "initializeWithSampleData loaded st =
     (foldl load_product st sampleProducts)\<lparr>sales := sampleSales loaded\<rparr>"

definition new_store :: "int \<Rightarrow> store" where
  "new_store loaded = initializeWithSampleData loaded empty_store"

subsection \<open>Product operations\<close>

definition getProduct :: "store \<Rightarrow> string \<Rightarrow> product option" where
  "getProduct st pid = map_get pid (products st)"

text \<open>The \<open>for ... of\<close> loops with their early \<open>return\<close>.\<close>

fun getProductByName_loop :: "string \<Rightarrow> product list \<Rightarrow> product option" where
  "getProductByName_loop n [] = None"
| "getProductByName_loop n (p # ps) =
     (if str_includes (toLowerCase (name p)) (toLowerCase n) then Some p
      else getProductByName_loop n ps)"

definition getProductByName :: "store \<Rightarrow> string \<Rightarrow> product option" where
  "getProductByName st n = getProductByName_loop n (map_values (products st))"

fun getProductBySku_loop :: "string \<Rightarrow> product list \<Rightarrow> product option" where
  "getProductBySku_loop s [] = None"
| "getProductBySku_loop s (p # ps) =
     (if sku p = Some s then Some p else getProductBySku_loop s ps)"

definition getProductBySku :: "store \<Rightarrow> string \<Rightarrow> product option" where
  "getProductBySku st s = getProductBySku_loop s (map_values (products st))"

text \<open>
  \<open>productData\<close> is spread first and \<open>id\<close>, \<open>createdAt\<close>, \<open>updatedAt\<close> are written over
  it, so it is a product whose three fields do not matter.
\<close>

definition addProduct :: "store \<Rightarrow> product \<Rightarrow> int \<Rightarrow> string \<Rightarrow> product \<times> store" where
  "addProduct st productData now rnd =
     (let newProduct = productData\<lparr>id_prod := gen_id ''prod'' now rnd,
                                    createdAt := now, updatedAt := now\<rparr>
      in (newProduct, load_product st newProduct))"

definition merge_updates :: "product \<Rightarrow> productUpdates \<Rightarrow> product" where
  "merge_updates p u =
     p\<lparr>name := (case name_upd u of None \<Rightarrow> name p | Some v \<Rightarrow> v),
       description := (case description_upd u of None \<Rightarrow> description p | Some v \<Rightarrow> v),
       price := (case price_upd u of None \<Rightarrow> price p | Some v \<Rightarrow> v),
       category := (case category_upd u of None \<Rightarrow> category p | Some v \<Rightarrow> v),
       subcategory := (case subcategory_upd u of None \<Rightarrow> subcategory p | Some v \<Rightarrow> v),
       collection := (case collection_upd u of None \<Rightarrow> collection p | Some v \<Rightarrow> v),
       stock := (case stock_upd u of None \<Rightarrow> stock p | Some v \<Rightarrow> v),
       isVisible := (case isVisible_upd u of None \<Rightarrow> isVisible p | Some v \<Rightarrow> v),
       tags := (case tags_upd u of None \<Rightarrow> tags p | Some v \<Rightarrow> v),
       sku := (case sku_upd u of None \<Rightarrow> sku p | Some v \<Rightarrow> v),
       images := (case images_upd u of None \<Rightarrow> images p | Some v \<Rightarrow> v),
       weight := (case weight_upd u of None \<Rightarrow> weight p | Some v \<Rightarrow> v),
       dimensions := (case dimensions_upd u of None \<Rightarrow> dimensions p | Some v \<Rightarrow> v)\<rparr>"

definition updateProduct ::
  "store \<Rightarrow> string \<Rightarrow> productUpdates \<Rightarrow> int \<Rightarrow> product option \<times> store" where
  "updateProduct st pid updates now =
     (case map_get pid (products st) of
        None \<Rightarrow> (None, st)
      | Some p \<Rightarrow>
          (let updatedProduct = (merge_updates p updates)\<lparr>updatedAt := now\<rparr>
           in (Some updatedProduct,
               register updatedProduct
                 (st\<lparr>products := map_set pid updatedProduct (products st)\<rparr>))))"

definition deleteProduct :: "store \<Rightarrow> string \<Rightarrow> bool \<times> store" where
  "deleteProduct st pid =
     (map_get pid (products st) \<noteq> None, st\<lparr>products := map_delete pid (products st)\<rparr>)"

subsection \<open>Inventory\<close>

text \<open>The \<open>switch\<close> of \<open>updateStock\<close>; \<open>None\<close> is its \<open>default: return false\<close>.\<close>

definition newStock :: "product \<Rightarrow> stockOperation \<Rightarrow> real option" where
  "newStock p stockOp =
     (case operation stockOp of
        Add \<Rightarrow> Some (stock p + quantity_op stockOp)
      | Subtract \<Rightarrow> Some (max 0 (stock p - quantity_op stockOp))
      | SetTo \<Rightarrow> Some (max 0 (quantity_op stockOp))
      | OtherKind \<Rightarrow> None)"

definition updateStock :: "store \<Rightarrow> string \<Rightarrow> stockOperation \<Rightarrow> int \<Rightarrow> bool \<times> store" where
  "updateStock st pid stockOp now =
     (case map_get pid (products st) of
        None \<Rightarrow> (False, st)
      | Some p \<Rightarrow>
          (case newStock p stockOp of
             None \<Rightarrow> (False, st)
           | Some n \<Rightarrow>
               (True, st\<lparr>products :=
                          map_set pid (p\<lparr>stock := n, updatedAt := now\<rparr>) (products st)\<rparr>)))"

definition getLowStockProducts :: "store \<Rightarrow> real \<Rightarrow> product list" where
  "getLowStockProducts st threshold =
     filter (\<lambda>p. stock p \<le> threshold \<and> stock p > 0) (map_values (products st))"

definition getOutOfStockProducts :: "store \<Rightarrow> product list" where
  "getOutOfStockProducts st = filter (\<lambda>p. stock p = 0) (map_values (products st))"

definition getStockLevel :: "store \<Rightarrow> string \<Rightarrow> real" where
  "getStockLevel st pid = (case map_get pid (products st) of Some p \<Rightarrow> stock p | None \<Rightarrow> - 1)"

subsection \<open>Sales\<close>

definition addSale :: "store \<Rightarrow> sale \<Rightarrow> int \<Rightarrow> string \<Rightarrow> sale \<times> store" where
  "addSale st saleData now rnd =
     (let newSale = saleData\<lparr>id_sale := gen_id ''sale'' now rnd\<rparr>;
          st1 = st\<lparr>sales := sales st @ [newSale]\<rparr>;
          st2 = snd (updateStock st1 (productId saleData)
                       \<lparr>operation = Subtract, quantity_op = quantity saleData,
                        reason = Some (''Sale: '' @ id_sale newSale)\<rparr> now)
      in (newSale, st2))"

definition getSalesByDateRange :: "store \<Rightarrow> int \<Rightarrow> int \<Rightarrow> sale list" where
  "getSalesByDateRange st s e =
     filter (\<lambda>sale. timestamp sale \<ge> s \<and> timestamp sale \<le> e) (sales st)"

subsection \<open>Snapshots\<close>

definition exportData :: "store \<Rightarrow> product list \<times> sale list" where
  "exportData st = (map_values (products st), sales st)"

definition importData :: "store \<Rightarrow> product list \<times> sale list \<Rightarrow> store" where
  "importData st data =
     (foldl load_product
        (st\<lparr>products := [], sales := [], categories := [], collections := []\<rparr>)
        (fst data))\<lparr>sales := snd data\<rparr>"

subsection \<open>Analytics\<close>

text \<open>
  The values of the two local maps of \<open>getSalesAnalytics\<close>, and the calendar instants
  that the \<open>Date\<close> built-ins derive from the wall clock in the local time zone.
\<close>

record productSalesEntry =
  name_ps :: string
  sales_ps :: real

record categoryStat =
  revenue_cs :: real
  orders_cs :: real

record calendar =
  now_cal :: int
  today :: int
  thisWeekStart :: int
  thisMonthStart :: int

definition salesData :: "store \<Rightarrow> dateRange option \<Rightarrow> sale list" where
  "salesData st dr =
     (case dr of
        Some r \<Rightarrow> getSalesByDateRange st (start r) (end_range r)
      | None \<Rightarrow> sales st)"

definition sum_totalAmount :: "sale list \<Rightarrow> real" where
  "sum_totalAmount xs = foldl (\<lambda>sum sale. sum + totalAmount sale) 0 xs"

definition productSales_step ::
  "(string \<times> productSalesEntry) list \<Rightarrow> sale \<Rightarrow> (string \<times> productSalesEntry) list" where
  "productSales_step m sale =
     (case map_get (productId sale) m of
        Some existing \<Rightarrow>
          map_set (productId sale)
            (existing\<lparr>sales_ps := sales_ps existing + totalAmount sale\<rparr>) m
      | None \<Rightarrow>
          map_set (productId sale)
            \<lparr>name_ps = productName sale, sales_ps = totalAmount sale\<rparr> m)"

definition productSales :: "sale list \<Rightarrow> (string \<times> productSalesEntry) list" where
  "productSales xs = foldl productSales_step [] xs"

definition productSales_entries :: "sale list \<Rightarrow> topProduct list" where
  "productSales_entries xs =
     map (\<lambda>(pid, d). \<lparr>id_top = pid, name_top = name_ps d, sales_top = sales_ps d\<rparr>)
       (productSales xs)"

definition categoryStats_step ::
  "store \<Rightarrow> (string \<times> categoryStat) list \<Rightarrow> sale \<Rightarrow> (string \<times> categoryStat) list" where
  "categoryStats_step st m sale =
     (case getProduct st (productId sale) of
        None \<Rightarrow> m
      | Some p \<Rightarrow>
          (case map_get (category p) m of
             Some existing \<Rightarrow>
               map_set (category p)
                 (existing\<lparr>revenue_cs := revenue_cs existing + totalAmount sale,
                            orders_cs := orders_cs existing + 1\<rparr>) m
           | None \<Rightarrow>
               map_set (category p) \<lparr>revenue_cs = totalAmount sale, orders_cs = 1\<rparr> m))"

definition categoryStats :: "store \<Rightarrow> sale list \<Rightarrow> (string \<times> categoryStat) list" where
  "categoryStats st xs = foldl (categoryStats_step st) [] xs"

definition getSalesAnalytics :: "store \<Rightarrow> dateRange option \<Rightarrow> calendar \<Rightarrow> storeMetrics" where
  "getSalesAnalytics st dr cal =
     (let sd = salesData st dr;
          total = sum_totalAmount sd;
          n = real (length sd)
      in \<lparr>totalSales = total,
          totalOrders = n,
          avgOrderValue = (if n > 0 then total / n else 0),
          topProducts = slice0 (sort_desc sales_top (productSales_entries sd)) 5,
          lowStockAlerts =
            map (\<lambda>p. \<lparr>id_alert = id_prod p, name_alert = name p, stock_alert = stock p\<rparr>)
              (getLowStockProducts st 10),
          revenueByPeriod =
            \<lparr>daily = sum_totalAmount (getSalesByDateRange st (today cal) (now_cal cal)),
             weekly = sum_totalAmount (getSalesByDateRange st (thisWeekStart cal) (now_cal cal)),
             monthly =
               sum_totalAmount (getSalesByDateRange st (thisMonthStart cal) (now_cal cal))\<rparr>,
          categoryPerformance =
            sort_desc revenue
              (map (\<lambda>(c, s). \<lparr>category_perf = c, revenue = revenue_cs s, orders = orders_cs s\<rparr>)
                 (categoryStats st sd))\<rparr>)"




section \<open>The tool \<open>addNewProduct\<close> (add-product.ts)\<close>

text \<open>
  \<open>productData\<close> is the input after the schema has accepted it and filled in its
  defaults. The two \<open>throw\<close> statements of \<open>execute\<close> are the errors \<open>DuplicateSKU\<close> and
  \<open>DuplicateName\<close>. \<open>if (productData.sku)\<close> holds for a defined, non-empty string. The
  call of \<open>addProduct\<close> inside \<open>try\<close> cannot throw, so the \<open>catch\<close> branch has no
  counterpart. The result keeps the new product and the store; the formatted copy and
  the message are presentation.
\<close>

datatype tool_error = DuplicateSKU | DuplicateName

definition addNewProduct_execute ::
  "store \<Rightarrow> product \<Rightarrow> int \<Rightarrow> string \<Rightarrow> tool_error + product \<times> store" where
  "addNewProduct_execute st productData now rnd =
     (case (case sku productData of
              None \<Rightarrow> None
            | Some s \<Rightarrow> if s = [] then None else getProductBySku st s) of
        Some existingProduct \<Rightarrow> Inl DuplicateSKU
      | None \<Rightarrow>
          (case getProductByName st (name productData) of
             Some existingByName \<Rightarrow> Inl DuplicateName
           | None \<Rightarrow> Inr (addProduct st productData now rnd)))"

section \<open>Sequences of repository operations\<close>

datatype store_op =
    OpAddProduct product int string
  | OpUpdateProduct string productUpdates int
  | OpUpdateStock string stockOperation int
  | OpAddSale sale int string
  | OpImportData "product list" "sale list"
  | OpDeleteProduct string

fun apply_op :: "store \<Rightarrow> store_op \<Rightarrow> store" where
  "apply_op st (OpAddProduct productData now rnd) = snd (addProduct st productData now rnd)"
| "apply_op st (OpUpdateProduct pid updates now) = snd (updateProduct st pid updates now)"
| "apply_op st (OpUpdateStock pid stockOp now) = snd (updateStock st pid stockOp now)"
| "apply_op st (OpAddSale saleData now rnd) = snd (addSale st saleData now rnd)"
| "apply_op st (OpImportData ps ss) = importData st (ps, ss)"
| "apply_op st (OpDeleteProduct pid) = snd (deleteProduct st pid)"

definition run_ops :: "store \<Rightarrow> store_op list \<Rightarrow> store" where
  "run_ops st ops = foldl apply_op st ops"

definition stock_nonneg :: "store \<Rightarrow> bool" where
  "stock_nonneg st = list_all (\<lambda>p. 0 \<le> stock p) (map_values (products st))"

text \<open>
  The operations whose arguments carry no negative stock: the stock of a product given
  to \<open>addProduct\<close> or \<open>importData\<close>, the \<open>stock\<close> key of an update, and the quantity of
  an \<open>add\<close> operation. The quantities of \<open>subtract\<close>, \<open>set\<close> and of a sale are free.
\<close>

fun op_ok :: "store_op \<Rightarrow> bool" where
  "op_ok (OpAddProduct productData now rnd) = (0 \<le> stock productData)"
| "op_ok (OpUpdateProduct pid updates now) =
     (case stock_upd updates of None \<Rightarrow> True | Some v \<Rightarrow> 0 \<le> v)"
| "op_ok (OpUpdateStock pid stockOp now) =
     (if operation stockOp = Add then 0 \<le> quantity_op stockOp else True)"
| "op_ok (OpAddSale saleData now rnd) = True"
| "op_ok (OpImportData ps ss) = list_all (\<lambda>p. 0 \<le> stock p) ps"
| "op_ok (OpDeleteProduct pid) = True"

text \<open>
  The representation invariant of the product map: keys are distinct, and every entry
  is stored under the \<open>id\<close> of its product.
\<close>

definition store_wf :: "store \<Rightarrow> bool" where
  "store_wf st =
     (distinct (map_keys (products st)) \<and> list_all (\<lambda>(k, p). id_prod p = k) (products st))"

section \<open>Notions used to state the properties\<close>




section \<open>The stock switch on all JavaScript numbers\<close>

text \<open>
  The store above computes with the finite numbers. A JavaScript \<open>number\<close> can also be
  \<open>NaN\<close> or an infinity. \<open>newStock_js\<close> is the \<open>switch\<close> of \<open>updateStock\<close> once more, on
  all of them, with what \<open>+\<close>, \<open>-\<close>, \<open>Math.max\<close> and \<open>>=\<close> give on \<open>NaN\<close> and the
  infinities written out: \<open>NaN\<close> propagates through \<open>+\<close>, \<open>-\<close> and \<open>Math.max\<close>,
  \<open>Infinity - Infinity\<close> is \<open>NaN\<close>, and every comparison with \<open>NaN\<close> is false. On two
  finite numbers the result is the exact one: rounding, and an overflow to the infinity
  of the same sign, are left out; neither changes the sign of a result.
\<close>

datatype js_number = Finite real | PosInfinity | NegInfinity | NaN

fun js_neg :: "js_number \<Rightarrow> js_number" where
  "js_neg (Finite a) = Finite (- a)"
| "js_neg PosInfinity = NegInfinity"
| "js_neg NegInfinity = PosInfinity"
| "js_neg NaN = NaN"

fun js_add :: "js_number \<Rightarrow> js_number \<Rightarrow> js_number" where
  "js_add NaN b = NaN"
| "js_add a NaN = NaN"
| "js_add (Finite a) (Finite b) = Finite (a + b)"
| "js_add (Finite a) b = b"
| "js_add a (Finite b) = a"
| "js_add PosInfinity PosInfinity = PosInfinity"
| "js_add NegInfinity NegInfinity = NegInfinity"
| "js_add PosInfinity NegInfinity = NaN"
| "js_add NegInfinity PosInfinity = NaN"

definition js_sub :: "js_number \<Rightarrow> js_number \<Rightarrow> js_number" where
  "js_sub a b = js_add a (js_neg b)"

fun js_max :: "js_number \<Rightarrow> js_number \<Rightarrow> js_number" where
  "js_max NaN b = NaN"
| "js_max a NaN = NaN"
| "js_max PosInfinity b = PosInfinity"
| "js_max a PosInfinity = PosInfinity"
| "js_max NegInfinity b = b"
| "js_max a NegInfinity = a"
| "js_max (Finite a) (Finite b) = Finite (max a b)"

fun js_ge :: "js_number \<Rightarrow> js_number \<Rightarrow> bool" where
  "js_ge NaN b = False"
| "js_ge a NaN = False"
| "js_ge PosInfinity b = True"
| "js_ge a NegInfinity = True"
| "js_ge (Finite a) (Finite b) = (b \<le> a)"
| "js_ge (Finite a) PosInfinity = False"
| "js_ge NegInfinity b = False"

definition newStock_js :: "js_number \<Rightarrow> operation_kind \<Rightarrow> js_number \<Rightarrow> js_number option" where
  "newStock_js s kind q =
     (case kind of
        Add \<Rightarrow> Some (js_add s q)
      | Subtract \<Rightarrow> Some (js_max (Finite 0) (js_sub s q))
      | SetTo \<Rightarrow> Some (js_max (Finite 0) q)
      | OtherKind \<Rightarrow> None)"

section \<open>Facts about the map\<close>

lemma map_get_map_set_same: "map_get k (map_set k v m) = Some v"
  by (induction m) auto



lemma map_get_Some_mem: "map_get k m = Some v \<Longrightarrow> (k, v) \<in> set m"
  by (induction m) (auto split: if_splits)

lemma map_set_new: "k \<notin> set (map_keys m) \<Longrightarrow> map_set k v m = m @ [(k, v)]"
  by (induction m) (auto simp: map_keys_def split: if_splits)

lemma map_keys_map_set:
  "map_keys (map_set k v m) = (if k \<in> set (map_keys m) then map_keys m else map_keys m @ [k])"
  by (induction m) (auto simp: map_keys_def split: if_splits)

lemma list_all_map_set:
  "list_all P (map_values m) \<Longrightarrow> P v \<Longrightarrow> list_all P (map_values (map_set k v m))"
  by (induction m) (auto simp: map_values_def)

lemma list_all_map_delete:
  "list_all P (map_values m) \<Longrightarrow> list_all P (map_values (map_delete k m))"
  by (induction m) (auto simp: map_values_def)

lemma map_get_list_all:
  "list_all P (map_values m) \<Longrightarrow> map_get k m = Some v \<Longrightarrow> P v"
  by (induction m) (auto simp: map_values_def split: if_splits)

lemma products_register [simp]: "products (register p st) = products st"
  by (simp add: register_def Let_def split: option.splits)

lemma sales_register [simp]: "sales (register p st) = sales st"
  by (simp add: register_def Let_def split: option.splits)

lemma products_load_product [simp]:
  "products (load_product st p) = map_set (id_prod p) p (products st)"
  by (simp add: load_product_def)

lemma sales_load_product [simp]: "sales (load_product st p) = sales st"
  by (simp add: load_product_def)

section \<open>Facts about the sample store\<close>

lemma products_new_store:
  "map_values (products (new_store t)) = sampleProducts"
  by (simp add: new_store_def initializeWithSampleData_def sampleProducts_def
      empty_store_def load_product_def register_def set_add_def map_values_def)

lemma sales_new_store: "sales (new_store t) = sampleSales t"
  by (simp add: new_store_def initializeWithSampleData_def)

lemma getProduct_new_store_scarf: "getProduct (new_store t) ''12349'' = Some (sampleProducts ! 4)"
  by (simp add: new_store_def initializeWithSampleData_def sampleProducts_def getProduct_def
      empty_store_def load_product_def register_def set_add_def)

lemma stock_nonneg_new_store: "stock_nonneg (new_store t)"
  unfolding stock_nonneg_def products_new_store
  by (simp add: sampleProducts_def)

section \<open>Inventory operations\<close>

text \<open>
  Claim C3. For an existing product with stock \<open>s\<close> and any quantity \<open>q\<close>,
  \<open>updateStock\<close> with \<open>subtract\<close> returns true and sets the stock to \<open>max 0 (s - q)\<close>,
  and with \<open>set\<close> returns true and sets the stock to \<open>max 0 q\<close>; the rest of the store
  is left as it was, and the stock read back is never below 0.
\<close>

theorem updateStock_subtract_set_clamp:
  assumes "getProduct st pid = Some p"
  shows "(operation stockOp = Subtract \<longrightarrow>
            updateStock st pid stockOp now =
              (True, st\<lparr>products := map_set pid
                 (p\<lparr>stock := max 0 (stock p - quantity_op stockOp), updatedAt := now\<rparr>)
                 (products st)\<rparr>) \<and>
            getStockLevel (snd (updateStock st pid stockOp now)) pid
              = max 0 (stock p - quantity_op stockOp)) \<and>
         (operation stockOp = SetTo \<longrightarrow>
            updateStock st pid stockOp now =
              (True, st\<lparr>products := map_set pid
                 (p\<lparr>stock := max 0 (quantity_op stockOp), updatedAt := now\<rparr>)
                 (products st)\<rparr>) \<and>
            getStockLevel (snd (updateStock st pid stockOp now)) pid
              = max 0 (quantity_op stockOp)) \<and>
         (operation stockOp \<in> {Subtract, SetTo} \<longrightarrow>
            0 \<le> getStockLevel (snd (updateStock st pid stockOp now)) pid)"
  using assms
  by (auto simp: updateStock_def newStock_def getProduct_def getStockLevel_def
      map_get_map_set_same)

theorem updateStock_subtract_set_clamp_witness:
  "getProduct (new_store 0) ''12349'' = Some (sampleProducts ! 4) \<and>
   stock (sampleProducts ! 4) = 5 \<and>
   fst (updateStock (new_store 0) ''12349''
          \<lparr>operation = Subtract, quantity_op = 9, reason = None\<rparr> 1) \<and>
   getStockLevel (snd (updateStock (new_store 0) ''12349''
          \<lparr>operation = Subtract, quantity_op = 9, reason = None\<rparr> 1)) ''12349'' = 0 \<and>
   fst (updateStock (new_store 0) ''12349''
          \<lparr>operation = SetTo, quantity_op = - 3, reason = None\<rparr> 1) \<and>
   getStockLevel (snd (updateStock (new_store 0) ''12349''
          \<lparr>operation = SetTo, quantity_op = - 3, reason = None\<rparr> 1)) ''12349'' = 0"
proof -
  have h: "getProduct (new_store 0) ''12349'' = Some (sampleProducts ! 4)"
    by (rule getProduct_new_store_scarf)
  have s: "stock (sampleProducts ! 4) = 5"
    by (simp add: sampleProducts_def)
  show ?thesis
    using h s
      updateStock_subtract_set_clamp [OF h,
        of "\<lparr>operation = Subtract, quantity_op = 9, reason = None\<rparr>" 1]
      updateStock_subtract_set_clamp [OF h,
        of "\<lparr>operation = SetTo, quantity_op = - 3, reason = None\<rparr>" 1]
    by auto
qed

section \<open>The stock invariant\<close>

lemma stock_nonneg_load_product:
  "stock_nonneg st \<Longrightarrow> 0 \<le> stock p \<Longrightarrow> stock_nonneg (load_product st p)"
  by (simp add: stock_nonneg_def list_all_map_set)

lemma stock_nonneg_foldl_load:
  "stock_nonneg st \<Longrightarrow> list_all (\<lambda>p. 0 \<le> stock p) ps \<Longrightarrow> stock_nonneg (foldl load_product st ps)"
  by (induction ps arbitrary: st) (simp_all add: stock_nonneg_load_product)

lemma stock_nonneg_addProduct:
  "stock_nonneg st \<Longrightarrow> 0 \<le> stock productData \<Longrightarrow>
   stock_nonneg (snd (addProduct st productData now rnd))"
  by (simp add: addProduct_def Let_def stock_nonneg_load_product)

lemma stock_merge_updates:
  "stock (merge_updates p u) = (case stock_upd u of None \<Rightarrow> stock p | Some v \<Rightarrow> v)"
  by (simp add: merge_updates_def)

lemma stock_nonneg_updateProduct:
  assumes "stock_nonneg st" and "case stock_upd updates of None \<Rightarrow> True | Some v \<Rightarrow> 0 \<le> v"
  shows "stock_nonneg (snd (updateProduct st pid updates now))"
proof (cases "map_get pid (products st)")
  case None
  then show ?thesis using assms by (simp add: updateProduct_def)
next
  case (Some p)
  from assms(1) Some have "0 \<le> stock p"
    unfolding stock_nonneg_def by (rule map_get_list_all)
  with assms(2) have "0 \<le> stock (merge_updates p updates)"
    by (simp add: stock_merge_updates split: option.splits)
  with assms(1) Some show ?thesis
    by (simp add: updateProduct_def Let_def stock_nonneg_def list_all_map_set)
qed

lemma stock_nonneg_updateStock:
  assumes "stock_nonneg st" and "operation stockOp = Add \<longrightarrow> 0 \<le> quantity_op stockOp"
  shows "stock_nonneg (snd (updateStock st pid stockOp now))"
proof (cases "map_get pid (products st)")
  case None
  then show ?thesis using assms by (simp add: updateStock_def)
next
  case (Some p)
  from assms(1) Some have p: "0 \<le> stock p"
    unfolding stock_nonneg_def by (rule map_get_list_all)
  show ?thesis
  proof (cases "newStock p stockOp")
    case None
    with Some assms(1) show ?thesis by (simp add: updateStock_def)
  next
    case (Some n)
    with p assms(2) have "0 \<le> n"
      by (cases "operation stockOp") (auto simp: newStock_def)
    with Some \<open>map_get pid (products st) = Some p\<close> assms(1) show ?thesis
      by (simp add: updateStock_def stock_nonneg_def list_all_map_set)
  qed
qed

lemma stock_nonneg_addSale:
  assumes "stock_nonneg st"
  shows "stock_nonneg (snd (addSale st saleData now rnd))"
proof -
  have "stock_nonneg (st\<lparr>sales := sales st @ [saleData\<lparr>id_sale := gen_id ''sale'' now rnd\<rparr>]\<rparr>)"
    using assms by (simp add: stock_nonneg_def)
  then show ?thesis
    by (simp add: addSale_def Let_def stock_nonneg_updateStock)
qed

lemma stock_nonneg_importData:
  "list_all (\<lambda>p. 0 \<le> stock p) ps \<Longrightarrow> stock_nonneg (importData st (ps, ss))"
proof -
  assume ps: "list_all (\<lambda>p. 0 \<le> stock p) ps"
  have "stock_nonneg (st\<lparr>products := [], sales := [], categories := [], collections := []\<rparr>)"
    by (simp add: stock_nonneg_def map_values_def)
  from stock_nonneg_foldl_load [OF this ps] show ?thesis
    by (simp add: importData_def stock_nonneg_def)
qed

lemma stock_nonneg_deleteProduct:
  "stock_nonneg st \<Longrightarrow> stock_nonneg (snd (deleteProduct st pid))"
  by (simp add: deleteProduct_def stock_nonneg_def list_all_map_delete)

lemma stock_nonneg_apply_op:
  "stock_nonneg st \<Longrightarrow> op_ok x \<Longrightarrow> stock_nonneg (apply_op st x)"
  by (cases x)
    (simp_all add: stock_nonneg_addProduct stock_nonneg_updateProduct stock_nonneg_updateStock
      stock_nonneg_addSale stock_nonneg_importData stock_nonneg_deleteProduct)

lemma stock_nonneg_run_ops:
  "stock_nonneg st \<Longrightarrow> list_all op_ok ops \<Longrightarrow> stock_nonneg (run_ops st ops)"
  unfolding run_ops_def
  by (induction ops arbitrary: st) (simp_all add: stock_nonneg_apply_op)

lemma newStock_js_finite:
  "newStock_js (Finite (stock p)) (operation stockOp) (Finite (quantity_op stockOp)) =
     map_option Finite (newStock p stockOp)"
  by (cases "operation stockOp") (simp_all add: newStock_js_def newStock_def js_sub_def)

lemma js_max_0_ge:
  "x \<noteq> NaN \<Longrightarrow> js_ge (js_max (Finite 0) x) (Finite 0)"
  by (cases x) simp_all

lemma newStock_js_nonneg:
  assumes "js_ge s (Finite 0)"
    and "kind = Add \<longrightarrow> js_ge q (Finite 0)"
    and "kind = Subtract \<longrightarrow> q \<noteq> NaN \<and> q \<noteq> PosInfinity"
    and "kind = SetTo \<longrightarrow> q \<noteq> NaN"
    and "newStock_js s kind q = Some n"
  shows "js_ge n (Finite 0)"
proof (cases kind)
  case Add
  with assms show ?thesis
    by (cases s; cases q) (auto simp: newStock_js_def)
next
  case Subtract
  with assms(1,3) have "js_sub s q \<noteq> NaN"
    by (cases s; cases q) (auto simp: js_sub_def)
  with Subtract assms(5) show ?thesis
    by (auto simp: newStock_js_def js_max_0_ge)
next
  case SetTo
  with assms(4,5) show ?thesis
    by (auto simp: newStock_js_def js_max_0_ge)
next
  case OtherKind
  with assms(5) show ?thesis by (simp add: newStock_js_def)
qed

lemma newStock_js_NaN:
  "newStock_js (Finite 5) SetTo NaN = Some NaN"
  "newStock_js (Finite 5) Subtract NaN = Some NaN"
  "newStock_js PosInfinity Subtract PosInfinity = Some NaN"
  "\<not> js_ge NaN (Finite 0)"
  by (simp_all add: newStock_js_def js_sub_def)

text \<open>
  Claim C1, as amended. All numbers handed to the operations being finite (neither
  \<open>NaN\<close> nor an infinity): starting from a store in which no stock is negative, the
  stock of every product is at least 0 after each operation of a sequence of
  \<open>addProduct\<close>, \<open>updateProduct\<close>, \<open>updateStock\<close>, \<open>addSale\<close>, \<open>importData\<close> and
  \<open>deleteProduct\<close> calls, provided that the stock values handed to \<open>addProduct\<close>,
  \<open>updateProduct\<close> and \<open>importData\<close> and the quantity of every \<open>add\<close> operation are at
  least 0. The finite quantities of \<open>subtract\<close> and \<open>set\<close> operations and of sales are
  arbitrary. On finite numbers the switch of the store is the switch on JavaScript
  numbers, and that switch keeps a stock that is at least 0, an infinite one included,
  at least 0 whenever the quantity of \<open>add\<close> is at least 0, the quantity of \<open>subtract\<close>
  is neither \<open>NaN\<close> nor \<open>Infinity\<close> and the quantity of \<open>set\<close> is not \<open>NaN\<close>.
\<close>

theorem stock_nonneg_after_each_op:
  assumes "stock_nonneg st" and "list_all op_ok ops"
  shows "(\<forall>n. stock_nonneg (run_ops st (take n ops))) \<and>
         (\<forall>p stockOp.
            newStock_js (Finite (stock p)) (operation stockOp) (Finite (quantity_op stockOp)) =
              map_option Finite (newStock p stockOp)) \<and>
         (\<forall>s kind q r.
            js_ge s (Finite 0) \<longrightarrow>
            (kind = Add \<longrightarrow> js_ge q (Finite 0)) \<longrightarrow>
            (kind = Subtract \<longrightarrow> q \<noteq> NaN \<and> q \<noteq> PosInfinity) \<longrightarrow>
            (kind = SetTo \<longrightarrow> q \<noteq> NaN) \<longrightarrow>
            newStock_js s kind q = Some r \<longrightarrow> js_ge r (Finite 0))"
proof -
  have A: "\<forall>n. stock_nonneg (run_ops st (take n ops))"
  proof
    fix n
    from assms(2) have "list_all op_ok (take n ops)"
      by (auto simp: list_all_iff dest: in_set_takeD)
    with assms(1) show "stock_nonneg (run_ops st (take n ops))"
      by (rule stock_nonneg_run_ops)
  qed
  have B: "\<forall>p stockOp.
            newStock_js (Finite (stock p)) (operation stockOp) (Finite (quantity_op stockOp)) =
              map_option Finite (newStock p stockOp)"
    by (intro allI) (rule newStock_js_finite)
  have C: "\<forall>s kind q r.
            js_ge s (Finite 0) \<longrightarrow>
            (kind = Add \<longrightarrow> js_ge q (Finite 0)) \<longrightarrow>
            (kind = Subtract \<longrightarrow> q \<noteq> NaN \<and> q \<noteq> PosInfinity) \<longrightarrow>
            (kind = SetTo \<longrightarrow> q \<noteq> NaN) \<longrightarrow>
            newStock_js s kind q = Some r \<longrightarrow> js_ge r (Finite 0)"
    by (intro allI impI) (rule newStock_js_nonneg)
  show ?thesis
    by (rule conjI [OF A conjI [OF B C]])
qed

theorem stock_nonneg_after_each_op_witness:
  "stock_nonneg (new_store 0) \<and>
   list_all op_ok
     [OpAddProduct ((sampleProducts ! 0)\<lparr>name := ''Red T-Shirt'', stock := 3\<rparr>) 7 ''k3x9q0a1z'',
      OpUpdateStock ''12349'' \<lparr>operation = Subtract, quantity_op = 9, reason = None\<rparr> 8,
      OpUpdateStock ''12345'' \<lparr>operation = Add, quantity_op = 4, reason = None\<rparr> 9,
      OpUpdateStock ''12346'' \<lparr>operation = SetTo, quantity_op = - 3, reason = None\<rparr> 10,
      OpAddSale ((sampleSales 0 ! 1)\<lparr>quantity := 50\<rparr>) 11 ''b7c2d9e4f'',
      OpImportData [sampleProducts ! 2, sampleProducts ! 4] []] \<and>
   stock_nonneg (run_ops (new_store 0)
     (take 5
     [OpAddProduct ((sampleProducts ! 0)\<lparr>name := ''Red T-Shirt'', stock := 3\<rparr>) 7 ''k3x9q0a1z'',
      OpUpdateStock ''12349'' \<lparr>operation = Subtract, quantity_op = 9, reason = None\<rparr> 8,
      OpUpdateStock ''12345'' \<lparr>operation = Add, quantity_op = 4, reason = None\<rparr> 9,
      OpUpdateStock ''12346'' \<lparr>operation = SetTo, quantity_op = - 3, reason = None\<rparr> 10,
      OpAddSale ((sampleSales 0 ! 1)\<lparr>quantity := 50\<rparr>) 11 ''b7c2d9e4f'',
      OpImportData [sampleProducts ! 2, sampleProducts ! 4] []])) \<and>
   js_ge PosInfinity (Finite 0) \<and>
   newStock_js PosInfinity Subtract (Finite 9) = Some PosInfinity"
proof -
  have a: "stock_nonneg (new_store 0)"
    by (rule stock_nonneg_new_store)
  have b: "list_all op_ok
     [OpAddProduct ((sampleProducts ! 0)\<lparr>name := ''Red T-Shirt'', stock := 3\<rparr>) 7 ''k3x9q0a1z'',
      OpUpdateStock ''12349'' \<lparr>operation = Subtract, quantity_op = 9, reason = None\<rparr> 8,
      OpUpdateStock ''12345'' \<lparr>operation = Add, quantity_op = 4, reason = None\<rparr> 9,
      OpUpdateStock ''12346'' \<lparr>operation = SetTo, quantity_op = - 3, reason = None\<rparr> 10,
      OpAddSale ((sampleSales 0 ! 1)\<lparr>quantity := 50\<rparr>) 11 ''b7c2d9e4f'',
      OpImportData [sampleProducts ! 2, sampleProducts ! 4] []]"
    by (simp add: sampleProducts_def)
  have c: "js_ge PosInfinity (Finite 0) \<and>
           newStock_js PosInfinity Subtract (Finite 9) = Some PosInfinity"
    by (simp add: newStock_js_def js_sub_def)
  from stock_nonneg_after_each_op [OF a b, THEN conjunct1] a b c show ?thesis
    by blast
qed


text \<open>
  Claim C1, as stated, fails. \<open>updateStock\<close> does not clamp the result of \<open>add\<close>: the
  sample product 12349 has stock 5, and adding the quantity -9 leaves it at -4. Nor do
  \<open>subtract\<close> and \<open>set\<close> keep the stock at least 0 for any quantity whatever: setting
  the quantity \<open>NaN\<close> stores \<open>Math.max(0, NaN)\<close>, which is \<open>NaN\<close>, as does subtracting
  \<open>Infinity\<close> from the stock \<open>Infinity\<close>, and \<open>NaN >= 0\<close> is false.
\<close>

theorem stock_nonneg_counterexample:
  "stock_nonneg (new_store 0) \<and>
   \<not> stock_nonneg (run_ops (new_store 0)
        [OpUpdateStock ''12349'' \<lparr>operation = Add, quantity_op = - 9, reason = None\<rparr> 1]) \<and>
   newStock_js (Finite 5) SetTo NaN = Some NaN \<and>
   newStock_js PosInfinity Subtract PosInfinity = Some NaN \<and>
   \<not> js_ge NaN (Finite 0)"
proof -
  have "\<not> stock_nonneg (run_ops (new_store 0)
        [OpUpdateStock ''12349'' \<lparr>operation = Add, quantity_op = - 9, reason = None\<rparr> 1])"
    by (simp add: stock_nonneg_def run_ops_def updateStock_def newStock_def new_store_def
      initializeWithSampleData_def sampleProducts_def empty_store_def load_product_def
      register_def set_add_def map_values_def)
  then show ?thesis
    by (simp add: stock_nonneg_new_store newStock_js_NaN)
qed

section \<open>Sales\<close>

lemma sales_updateStock [simp]: "sales (snd (updateStock st pid stockOp now)) = sales st"
  by (simp add: updateStock_def split: option.splits)

text \<open>
  The generated id determines the clock reading and the random suffix it was built
  from, as long as the suffix has no hyphen (the suffix is made of digits and lower-case
  letters).
\<close>

declare show_nat.simps [simp del]

lemma show_nat_nonempty: "show_nat n \<noteq> []"
  by (induction n rule: show_nat.induct) (subst show_nat.simps, simp)

lemma digit_nth_inj:
  "i < 10 \<Longrightarrow> j < 10 \<Longrightarrow> ''0123456789'' ! i = ''0123456789'' ! j \<Longrightarrow> i = j"
  using nth_eq_iff_index_eq [of "''0123456789''" i j] by simp

lemma digit_nth_not_minus: "i < 10 \<Longrightarrow> ''0123456789'' ! i \<noteq> CHR ''-''"
proof -
  assume "i < 10"
  then have "''0123456789'' ! i \<in> set ''0123456789''"
    by (intro nth_mem) simp
  then show ?thesis by auto
qed

lemma show_nat_no_minus: "CHR ''-'' \<notin> set (show_nat n)"
proof (induction n rule: show_nat.induct)
  case (1 n)
  show ?case
  proof (cases "n < 10")
    case True
    then show ?thesis
      using digit_nth_not_minus [of n] by (subst show_nat.simps) auto
  next
    case False
    then have "n mod 10 < 10" by simp
    with False "1.IH" digit_nth_not_minus [of "n mod 10"] show ?thesis
      by (subst show_nat.simps) auto
  qed
qed

lemma show_nat_inj: "show_nat n = show_nat m \<Longrightarrow> n = m"
proof (induction n arbitrary: m rule: show_nat.induct)
  case (1 n)
  show ?case
  proof (cases "n < 10")
    case True
    show ?thesis
    proof (cases "m < 10")
      case m: True
      from "1.prems" True m have "''0123456789'' ! n = ''0123456789'' ! m"
        by (subst (asm) show_nat.simps, subst (asm) (2) show_nat.simps) simp
      with True m show ?thesis by (rule digit_nth_inj)
    next
      case m: False
      have "length (show_nat m) \<ge> 2"
        using m show_nat_nonempty [of "m div 10"]
        by (subst show_nat.simps) (cases "show_nat (m div 10)"; simp)
      moreover have "length (show_nat n) = 1"
        using True by (subst show_nat.simps) simp
      ultimately show ?thesis using "1.prems" by simp
    qed
  next
    case False
    show ?thesis
    proof (cases "m < 10")
      case m: True
      have "length (show_nat n) \<ge> 2"
        using False show_nat_nonempty [of "n div 10"]
        by (subst show_nat.simps) (cases "show_nat (n div 10)"; simp)
      moreover have "length (show_nat m) = 1"
        using m by (subst show_nat.simps) simp
      ultimately show ?thesis using "1.prems" by simp
    next
      case m: False
      have n_eq: "show_nat n = show_nat (n div 10) @ [''0123456789'' ! (n mod 10)]"
        using False by (subst show_nat.simps) simp
      have m_eq: "show_nat m = show_nat (m div 10) @ [''0123456789'' ! (m mod 10)]"
        using m by (subst show_nat.simps) simp
      from "1.prems" n_eq m_eq
      have a: "show_nat (n div 10) = show_nat (m div 10)"
        and b: "''0123456789'' ! (n mod 10) = ''0123456789'' ! (m mod 10)"
        by simp_all
      from "1.IH" [OF False a] have d: "n div 10 = m div 10" .
      from b have r: "n mod 10 = m mod 10"
        by (intro digit_nth_inj) simp_all
      from d r show ?thesis
        by (metis div_mult_mod_eq)
    qed
  qed
qed

lemma show_int_inj: "show_int i = show_int j \<Longrightarrow> i = j"
proof -
  assume e: "show_int i = show_int j"
  have neg_pos: False if "a < 0" "0 \<le> b" "show_int a = show_int b" for a b
  proof -
    from that have "CHR ''-'' # show_nat (nat (- a)) = show_nat (nat b)"
      by (simp add: show_int_def)
    then have "CHR ''-'' \<in> set (show_nat (nat b))"
      by (metis list.set_intros(1))
    with show_nat_no_minus show False by blast
  qed
  show "i = j"
  proof (cases "i < 0")
    case True
    show ?thesis
    proof (cases "j < 0")
      case j: True
      from e True j have "show_nat (nat (- i)) = show_nat (nat (- j))"
        by (simp add: show_int_def)
      then have "nat (- i) = nat (- j)" by (rule show_nat_inj)
      with True j show ?thesis by simp
    next
      case j: False
      with True e neg_pos [of i j] show ?thesis by simp
    qed
  next
    case False
    show ?thesis
    proof (cases "j < 0")
      case j: True
      with False e neg_pos [of j i] show ?thesis by simp
    next
      case j: False
      from e False j have "show_nat (nat i) = show_nat (nat j)"
        by (simp add: show_int_def)
      then have "nat i = nat j" by (rule show_nat_inj)
      with False j show ?thesis by simp
    qed
  qed
qed

lemma split_at_last:
  assumes "xs @ c # ys = xs' @ c # ys'" and "c \<notin> set ys" and "c \<notin> set ys'"
  shows "xs = xs' \<and> ys = ys'"
proof -
  have tw: "takeWhile (\<lambda>z. z \<noteq> c) (rev (as @ c # bs)) = rev bs" if "c \<notin> set bs" for as bs
  proof -
    from that have "takeWhile (\<lambda>z. z \<noteq> c) (rev bs @ c # rev as) =
                 rev bs @ takeWhile (\<lambda>z. z \<noteq> c) (c # rev as)"
      by (intro takeWhile_append2) auto
    then show ?thesis by simp
  qed
  from tw [OF assms(2), of xs] tw [OF assms(3), of xs'] assms(1) have "rev ys = rev ys'"
    by simp
  then have "ys = ys'" by simp
  with assms(1) show ?thesis by simp
qed

lemma gen_id_inj:
  assumes "gen_id pre now rnd = gen_id pre now' rnd'"
    and "CHR ''-'' \<notin> set rnd" and "CHR ''-'' \<notin> set rnd'"
  shows "now = now' \<and> rnd = rnd'"
proof -
  from assms(1) have "show_int now @ CHR ''-'' # rnd = show_int now' @ CHR ''-'' # rnd'"
    by (simp add: gen_id_def)
  from split_at_last [OF this assms(2,3)] show ?thesis
    by (auto dest: show_int_inj)
qed

declare show_nat.simps [simp]

lemma gen_id_sale: "gen_id ''sale'' now rnd = ''sale-'' @ show_int now @ ''-'' @ rnd"
  by (simp add: gen_id_def)

lemma sales_addSale:
  "sales (snd (addSale st saleData now rnd)) =
     sales st @ [saleData\<lparr>id_sale := gen_id ''sale'' now rnd\<rparr>]"
  by (simp add: addSale_def Let_def)

lemma sample_sale_ids:
  "map id_sale (sampleSales t) = [''sale-001'', ''sale-002'', ''sale-003'', ''sale-004'', ''sale-005'']"
  by (simp add: sampleSales_def)

text \<open>
  Claim C2, as amended. For every sale input \<open>addSale\<close> returns the input with the id
  \<open>sale-<clock>-<suffix>\<close> built from the clock reading and the random suffix, and
  appends exactly that one sale to the log. The id is not compared with the ids already
  in the log: the ids of the log are distinct afterwards exactly when they were distinct
  before and the built id is not among them, and two ids built from different clock
  readings or different suffixes differ. \<open>addSale\<close> then applies the \<open>subtract\<close>
  operation with the sale's quantity to the referenced product: a product that exists
  gets the stock \<open>max 0 (stock - quantity)\<close> in place, and for an unknown product id
  the product map is left as it is while the sale is appended all the same. The
  tracking sets do not change.
\<close>

theorem addSale_appends_then_subtracts:
  "fst (addSale st saleData now rnd) =
     saleData\<lparr>id_sale := ''sale-'' @ show_int now @ ''-'' @ rnd\<rparr> \<and>
   sales (snd (addSale st saleData now rnd)) =
     sales st @ [saleData\<lparr>id_sale := ''sale-'' @ show_int now @ ''-'' @ rnd\<rparr>] \<and>
   length (sales (snd (addSale st saleData now rnd))) = length (sales st) + 1 \<and>
   categories (snd (addSale st saleData now rnd)) = categories st \<and>
   collections (snd (addSale st saleData now rnd)) = collections st \<and>
   (\<forall>p. getProduct st (productId saleData) = Some p \<longrightarrow>
      products (snd (addSale st saleData now rnd)) =
        map_set (productId saleData)
          (p\<lparr>stock := max 0 (stock p - quantity saleData), updatedAt := now\<rparr>) (products st) \<and>
      getStockLevel (snd (addSale st saleData now rnd)) (productId saleData) =
        max 0 (stock p - quantity saleData)) \<and>
   (getProduct st (productId saleData) = None \<longrightarrow>
      products (snd (addSale st saleData now rnd)) = products st) \<and>
   (distinct (map id_sale (sales (snd (addSale st saleData now rnd)))) \<longleftrightarrow>
      distinct (map id_sale (sales st)) \<and>
      ''sale-'' @ show_int now @ ''-'' @ rnd \<notin> set (map id_sale (sales st))) \<and>
   (\<forall>st' saleData' now' rnd'.
      CHR ''-'' \<notin> set rnd \<longrightarrow> CHR ''-'' \<notin> set rnd' \<longrightarrow> (now', rnd') \<noteq> (now, rnd) \<longrightarrow>
      id_sale (fst (addSale st' saleData' now' rnd')) \<noteq>
        id_sale (fst (addSale st saleData now rnd)))"
proof -
  have fst_eq: "fst (addSale s d t r) = d\<lparr>id_sale := gen_id ''sale'' t r\<rparr>" for s d t r
    by (simp add: addSale_def Let_def)
  have a: "fst (addSale st saleData now rnd) =
             saleData\<lparr>id_sale := ''sale-'' @ show_int now @ ''-'' @ rnd\<rparr>"
    by (simp only: fst_eq gen_id_sale)
  have b: "sales (snd (addSale st saleData now rnd)) =
             sales st @ [saleData\<lparr>id_sale := ''sale-'' @ show_int now @ ''-'' @ rnd\<rparr>]"
    by (simp only: sales_addSale gen_id_sale)
  have c: "categories (snd (addSale st saleData now rnd)) = categories st \<and>
           collections (snd (addSale st saleData now rnd)) = collections st"
    by (simp add: addSale_def Let_def updateStock_def split: option.splits)
  have d: "\<forall>p. getProduct st (productId saleData) = Some p \<longrightarrow>
      products (snd (addSale st saleData now rnd)) =
        map_set (productId saleData)
          (p\<lparr>stock := max 0 (stock p - quantity saleData), updatedAt := now\<rparr>) (products st) \<and>
      getStockLevel (snd (addSale st saleData now rnd)) (productId saleData) =
        max 0 (stock p - quantity saleData)"
    by (auto simp: addSale_def Let_def updateStock_def newStock_def getProduct_def
        getStockLevel_def map_get_map_set_same)
  have e: "getProduct st (productId saleData) = None \<longrightarrow>
      products (snd (addSale st saleData now rnd)) = products st"
    by (simp add: addSale_def Let_def updateStock_def getProduct_def)
  have f: "distinct (map id_sale (sales (snd (addSale st saleData now rnd)))) \<longleftrightarrow>
      distinct (map id_sale (sales st)) \<and>
      ''sale-'' @ show_int now @ ''-'' @ rnd \<notin> set (map id_sale (sales st))"
    unfolding b by auto
  have g: "\<forall>st' saleData' now' rnd'.
      CHR ''-'' \<notin> set rnd \<longrightarrow> CHR ''-'' \<notin> set rnd' \<longrightarrow> (now', rnd') \<noteq> (now, rnd) \<longrightarrow>
      id_sale (fst (addSale st' saleData' now' rnd')) \<noteq>
        id_sale (fst (addSale st saleData now rnd))"
    unfolding fst_eq using gen_id_inj [of "''sale''"] by fastforce
  from a b c d e f g show ?thesis
    by (simp only: length_append list.size) simp
qed

theorem addSale_appends_then_subtracts_witness:
  "getProduct
     \<lparr>products = [(''12349'', (sampleProducts ! 4)\<lparr>stock := 3\<rparr>)], sales = sampleSales 0,
      categories = [''Accessories''], collections = [''Winter Collection'']\<rparr> ''12349''
     = Some ((sampleProducts ! 4)\<lparr>stock := 3\<rparr>) \<and>
   getStockLevel (snd (addSale
     \<lparr>products = [(''12349'', (sampleProducts ! 4)\<lparr>stock := 3\<rparr>)], sales = sampleSales 0,
      categories = [''Accessories''], collections = [''Winter Collection'']\<rparr>
     ((sampleSales 0 ! 2)\<lparr>quantity := 5\<rparr>) 7 ''k3x9q0a1z'')) ''12349'' = 0 \<and>
   length (sales (snd (addSale
     \<lparr>products = [(''12349'', (sampleProducts ! 4)\<lparr>stock := 3\<rparr>)], sales = sampleSales 0,
      categories = [''Accessories''], collections = [''Winter Collection'']\<rparr>
     ((sampleSales 0 ! 2)\<lparr>quantity := 5\<rparr>) 7 ''k3x9q0a1z''))) = 6 \<and>
   id_sale (fst (addSale
     \<lparr>products = [(''12349'', (sampleProducts ! 4)\<lparr>stock := 3\<rparr>)], sales = sampleSales 0,
      categories = [''Accessories''], collections = [''Winter Collection'']\<rparr>
     ((sampleSales 0 ! 2)\<lparr>quantity := 5\<rparr>) 7 ''k3x9q0a1z'')) = ''sale-7-k3x9q0a1z'' \<and>
   distinct (map id_sale (sales (snd (addSale
     \<lparr>products = [(''12349'', (sampleProducts ! 4)\<lparr>stock := 3\<rparr>)], sales = sampleSales 0,
      categories = [''Accessories''], collections = [''Winter Collection'']\<rparr>
     ((sampleSales 0 ! 2)\<lparr>quantity := 5\<rparr>) 7 ''k3x9q0a1z'')))) \<and>
   id_sale (fst (addSale
     \<lparr>products = [(''12349'', (sampleProducts ! 4)\<lparr>stock := 3\<rparr>)], sales = sampleSales 0,
      categories = [''Accessories''], collections = [''Winter Collection'']\<rparr>
     (sampleSales 0 ! 3) 8 ''k3x9q0a1z'')) \<noteq>
   id_sale (fst (addSale
     \<lparr>products = [(''12349'', (sampleProducts ! 4)\<lparr>stock := 3\<rparr>)], sales = sampleSales 0,
      categories = [''Accessories''], collections = [''Winter Collection'']\<rparr>
     ((sampleSales 0 ! 2)\<lparr>quantity := 5\<rparr>) 7 ''k3x9q0a1z'')) \<and>
   getProduct
     \<lparr>products = [(''12349'', (sampleProducts ! 4)\<lparr>stock := 3\<rparr>)], sales = sampleSales 0,
      categories = [''Accessories''], collections = [''Winter Collection'']\<rparr> ''12346'' = None \<and>
   products (snd (addSale
     \<lparr>products = [(''12349'', (sampleProducts ! 4)\<lparr>stock := 3\<rparr>)], sales = sampleSales 0,
      categories = [''Accessories''], collections = [''Winter Collection'']\<rparr>
     (sampleSales 0 ! 3) 7 ''k3x9q0a1z'')) = [(''12349'', (sampleProducts ! 4)\<lparr>stock := 3\<rparr>)] \<and>
   length (sales (snd (addSale
     \<lparr>products = [(''12349'', (sampleProducts ! 4)\<lparr>stock := 3\<rparr>)], sales = sampleSales 0,
      categories = [''Accessories''], collections = [''Winter Collection'']\<rparr>
     (sampleSales 0 ! 3) 7 ''k3x9q0a1z''))) = 6"
proof -
  let ?st = "\<lparr>products = [(''12349'', (sampleProducts ! 4)\<lparr>stock := 3\<rparr>)], sales = sampleSales 0,
      categories = [''Accessories''], collections = [''Winter Collection'']\<rparr>"
  let ?s5 = "(sampleSales 0 ! 2)\<lparr>quantity := 5\<rparr>"
  have g1: "getProduct ?st (productId ?s5) = Some ((sampleProducts ! 4)\<lparr>stock := 3\<rparr>)"
    by (simp add: getProduct_def sampleSales_def)
  have g2: "getProduct ?st (productId (sampleSales 0 ! 3)) = None"
    by (simp add: getProduct_def sampleSales_def)
  have ids: "productId ?s5 = ''12349''" "productId (sampleSales 0 ! 3) = ''12346''"
    by (simp_all add: sampleSales_def)
  have len: "length (sampleSales 0) = 5"
    by (simp add: sampleSales_def)
  have sid: "''sale-'' @ show_int 7 @ ''-'' @ ''k3x9q0a1z'' = ''sale-7-k3x9q0a1z''"
    by (simp add: show_int_def)
  have fresh: "distinct (map id_sale (sales ?st)) \<and>
               ''sale-'' @ show_int 7 @ ''-'' @ ''k3x9q0a1z'' \<notin> set (map id_sale (sales ?st))"
    unfolding sid by (simp add: sample_sale_ids)
  note t1 = addSale_appends_then_subtracts [of ?st ?s5 7 "''k3x9q0a1z''"]
  note t2 = addSale_appends_then_subtracts [of ?st "sampleSales 0 ! 3" 7 "''k3x9q0a1z''"]
  from t1 have "\<forall>p. getProduct ?st (productId ?s5) = Some p \<longrightarrow>
      getStockLevel (snd (addSale ?st ?s5 7 ''k3x9q0a1z'')) (productId ?s5) =
        max 0 (stock p - quantity ?s5)"
    by blast
  with g1
  have a: "getStockLevel (snd (addSale ?st ?s5 7 ''k3x9q0a1z'')) (productId ?s5) = max 0 (3 - 5)"
    by simp
  from t1 have b: "length (sales (snd (addSale ?st ?s5 7 ''k3x9q0a1z''))) = length (sales ?st) + 1"
    by blast
  from t1 have i: "id_sale (fst (addSale ?st ?s5 7 ''k3x9q0a1z'')) = ''sale-7-k3x9q0a1z''"
    unfolding sid by simp
  from t1 fresh have d: "distinct (map id_sale (sales (snd (addSale ?st ?s5 7 ''k3x9q0a1z''))))"
    by blast
  from t2 g2
  have c: "products (snd (addSale ?st (sampleSales 0 ! 3) 7 ''k3x9q0a1z'')) = products ?st"
    by blast
  from t2
  have e: "length (sales (snd (addSale ?st (sampleSales 0 ! 3) 7 ''k3x9q0a1z'')))
             = length (sales ?st) + 1"
    by blast
  from t1 have "\<forall>st' saleData' now' rnd'.
      CHR ''-'' \<notin> set ''k3x9q0a1z'' \<longrightarrow> CHR ''-'' \<notin> set rnd' \<longrightarrow>
      (now', rnd') \<noteq> (7, ''k3x9q0a1z'') \<longrightarrow>
      id_sale (fst (addSale st' saleData' now' rnd')) \<noteq>
        id_sale (fst (addSale ?st ?s5 7 ''k3x9q0a1z''))"
    by blast
  then have "CHR ''-'' \<notin> set ''k3x9q0a1z'' \<longrightarrow> CHR ''-'' \<notin> set ''k3x9q0a1z'' \<longrightarrow>
      (8, ''k3x9q0a1z'') \<noteq> (7 :: int, ''k3x9q0a1z'') \<longrightarrow>
      id_sale (fst (addSale ?st (sampleSales 0 ! 3) 8 ''k3x9q0a1z'')) \<noteq>
        id_sale (fst (addSale ?st ?s5 7 ''k3x9q0a1z''))"
    by blast
  then have j: "id_sale (fst (addSale ?st (sampleSales 0 ! 3) 8 ''k3x9q0a1z'')) \<noteq>
        id_sale (fst (addSale ?st ?s5 7 ''k3x9q0a1z''))"
    by simp
  from g1 g2 a b c d e i j show ?thesis
    unfolding ids by (simp add: len)
qed

text \<open>
  Claim C2, as stated, fails in the freshness of the id: two calls of \<open>addSale\<close> in
  the same millisecond that draw the same random suffix append two sales with the same
  id, so the second id is already in the log.
\<close>

theorem addSale_repeated_id_counterexample:
  "distinct (map id_sale (sales (new_store 0))) \<and>
   distinct (map id_sale (sales
     (snd (addSale (new_store 0) (sampleSales 0 ! 1) 1700000000000 ''k3x9q0a1z'')))) \<and>
   id_sale (fst (addSale
       (snd (addSale (new_store 0) (sampleSales 0 ! 1) 1700000000000 ''k3x9q0a1z''))
       (sampleSales 0 ! 2) 1700000000000 ''k3x9q0a1z''))
     \<in> set (map id_sale (sales
       (snd (addSale (new_store 0) (sampleSales 0 ! 1) 1700000000000 ''k3x9q0a1z'')))) \<and>
   \<not> distinct (map id_sale (sales (snd (addSale
       (snd (addSale (new_store 0) (sampleSales 0 ! 1) 1700000000000 ''k3x9q0a1z''))
       (sampleSales 0 ! 2) 1700000000000 ''k3x9q0a1z''))))"
proof -
  have i: "gen_id ''sale'' 1700000000000 ''k3x9q0a1z'' = ''sale-1700000000000-k3x9q0a1z''"
    by (simp add: gen_id_def show_int_def)
  have f: "id_sale (fst (addSale s d 1700000000000 ''k3x9q0a1z'')) = ''sale-1700000000000-k3x9q0a1z''"
    for s d
    by (simp add: addSale_def Let_def i)
  show ?thesis
    unfolding f sales_addSale i sales_new_store
    by (simp add: sample_sale_ids)
qed

section \<open>Lookup by name\<close>

lemma str_includes_iff_sublist: "str_includes s t \<longleftrightarrow> sublist t s"
  by (induction s) (simp_all add: sublist_Cons_right)

lemma getProductByName_loop_find:
  "getProductByName_loop n ps =
     find (\<lambda>p. sublist (toLowerCase n) (toLowerCase (name p))) ps"
  by (induction ps) (simp_all add: str_includes_iff_sublist)

lemma getProductBySku_loop_find:
  "getProductBySku_loop s ps = find (\<lambda>p. sku p = Some s) ps"
  by (induction ps) simp_all

text \<open>
  Insertion order: a product added under an id that is not yet a key of the map
  becomes the last value of the map.
\<close>

lemma addProduct_appends:
  assumes "gen_id ''prod'' now rnd \<notin> set (map_keys (products st))"
  shows "map_values (products (snd (addProduct st productData now rnd))) =
           map_values (products st) @ [fst (addProduct st productData now rnd)]"
  using assms by (simp add: addProduct_def Let_def map_set_new map_values_def)

text \<open>
  Claim C5. \<open>getProductByName\<close> returns the first product, in the iteration order of
  the product map (which is the insertion order), whose lower-cased name contains the
  lower-cased fragment as a contiguous substring, and returns nothing exactly when no
  product's name contains it. With "Blue T-Shirt" and "Red T-Shirt" added in that
  order, the fragment "shirt" yields "Blue T-Shirt".
\<close>

theorem getProductByName_first_match:
  "(getProductByName st fragment = Some p \<longleftrightarrow>
      (\<exists>i < length (map_values (products st)).
         map_values (products st) ! i = p \<and>
         sublist (toLowerCase fragment) (toLowerCase (name p)) \<and>
         (\<forall>j < i. \<not> sublist (toLowerCase fragment)
                       (toLowerCase (name (map_values (products st) ! j)))))) \<and>
   (getProductByName st fragment = None \<longleftrightarrow>
      (\<forall>q \<in> set (map_values (products st)).
         \<not> sublist (toLowerCase fragment) (toLowerCase (name q))))"
  unfolding getProductByName_def getProductByName_loop_find
  by (auto simp: find_Some_iff find_None_iff)

lemma two_shirts_store:
  "products (snd (addProduct (snd (addProduct empty_store (sampleProducts ! 0) 1 ''k3x9q0a1z''))
      ((sampleProducts ! 0)\<lparr>name := ''Red T-Shirt''\<rparr>) 2 ''b7c2d9e4f'')) =
   [(''prod-1-k3x9q0a1z'',
       (sampleProducts ! 0)\<lparr>id_prod := ''prod-1-k3x9q0a1z'', createdAt := 1, updatedAt := 1\<rparr>),
    (''prod-2-b7c2d9e4f'',
       (sampleProducts ! 0)\<lparr>name := ''Red T-Shirt'', id_prod := ''prod-2-b7c2d9e4f'',
                               createdAt := 2, updatedAt := 2\<rparr>)]"
  by (simp add: addProduct_def Let_def empty_store_def gen_id_def show_int_def)

theorem getProductByName_first_match_witness:
  "getProductByName
     (snd (addProduct (snd (addProduct empty_store (sampleProducts ! 0) 1 ''k3x9q0a1z''))
        ((sampleProducts ! 0)\<lparr>name := ''Red T-Shirt''\<rparr>) 2 ''b7c2d9e4f'')) ''shirt'' =
     Some ((sampleProducts ! 0)\<lparr>id_prod := ''prod-1-k3x9q0a1z'', createdAt := 1, updatedAt := 1\<rparr>) \<and>
   name ((sampleProducts ! 0)\<lparr>id_prod := ''prod-1-k3x9q0a1z'', createdAt := 1, updatedAt := 1\<rparr>)
     = ''Blue T-Shirt'' \<and>
   getProductByName
     (snd (addProduct (snd (addProduct empty_store (sampleProducts ! 0) 1 ''k3x9q0a1z''))
        ((sampleProducts ! 0)\<lparr>name := ''Red T-Shirt''\<rparr>) 2 ''b7c2d9e4f'')) ''hat'' = None"
proof -
  let ?st = "snd (addProduct (snd (addProduct empty_store (sampleProducts ! 0) 1 ''k3x9q0a1z''))
        ((sampleProducts ! 0)\<lparr>name := ''Red T-Shirt''\<rparr>) 2 ''b7c2d9e4f'')"
  let ?blue = "(sampleProducts ! 0)\<lparr>id_prod := ''prod-1-k3x9q0a1z'', createdAt := 1, updatedAt := 1\<rparr>"
  have n: "name ?blue = ''Blue T-Shirt''"
    by (simp add: sampleProducts_def)
  have m: "sublist (toLowerCase ''shirt'') (toLowerCase (name ?blue))"
    unfolding n str_includes_iff_sublist [symmetric]
    by (simp add: toLowerCase_def lower_char_def)
  have "\<exists>i < length (map_values (products ?st)).
         map_values (products ?st) ! i = ?blue \<and>
         sublist (toLowerCase ''shirt'') (toLowerCase (name ?blue)) \<and>
         (\<forall>j < i. \<not> sublist (toLowerCase ''shirt'')
                       (toLowerCase (name (map_values (products ?st) ! j))))"
    using m by (intro exI [of _ 0]) (simp add: two_shirts_store map_values_def)
  then have a: "getProductByName ?st ''shirt'' = Some ?blue"
    using getProductByName_first_match [of ?st "''shirt''" ?blue] by blast
  have "\<forall>q \<in> set (map_values (products ?st)).
         \<not> sublist (toLowerCase ''hat'') (toLowerCase (name q))"
    unfolding str_includes_iff_sublist [symmetric] two_shirts_store
    by (simp add: map_values_def sampleProducts_def toLowerCase_def lower_char_def)
  then have b: "getProductByName ?st ''hat'' = None"
    using getProductByName_first_match [of ?st "''hat''"] by blast
  from a n b show ?thesis by blast
qed

section \<open>Creating a product through the tool\<close>

lemma find_SomeD: "find P xs = Some x \<Longrightarrow> P x \<and> x \<in> set xs"
  by (induction xs) (auto split: if_splits)

lemma addNewProduct_execute_error_iff:
  "(\<exists>e. addNewProduct_execute st productData now rnd = Inl e) \<longleftrightarrow>
     (\<exists>s. sku productData = Some s \<and> s \<noteq> [] \<and>
          (\<exists>p \<in> set (map_values (products st)). sku p = Some s)) \<or>
     (\<exists>p \<in> set (map_values (products st)).
          sublist (toLowerCase (name productData)) (toLowerCase (name p)))"
  unfolding addNewProduct_execute_def getProductBySku_def getProductByName_def
    getProductByName_loop_find getProductBySku_loop_find
  by (auto simp: find_None_iff split: option.splits dest: find_SomeD)

lemma addNewProduct_execute_delegates:
  "(\<forall>e. addNewProduct_execute st productData now rnd \<noteq> Inl e) \<Longrightarrow>
   addNewProduct_execute st productData now rnd = Inr (addProduct st productData now rnd)"
  by (auto simp: addNewProduct_execute_def split: option.splits if_splits)

text \<open>
  Claim C4 does not hold of the code: the name check of \<open>execute\<close> goes through
  \<open>getProductByName\<close>, a case-insensitive substring search, so a new name that is a
  fragment of an existing name is rejected. On the sample store, which holds
  "Blue T-Shirt", the input named "Shirt" with the unused SKU "SH-100" raises
  \<open>DuplicateName\<close>, although no product has that name (in any letter case) or that SKU.
\<close>

theorem addNewProduct_execute_rejects_fragment_name:
  "addNewProduct_execute (new_store 0)
     ((sampleProducts ! 0)\<lparr>name := ''Shirt'', sku := Some ''SH-100''\<rparr>) 7 ''k3x9q0a1z''
     = Inl DuplicateName \<and>
   list_all (\<lambda>p. name p \<noteq> ''Shirt'' \<and> toLowerCase (name p) \<noteq> toLowerCase ''Shirt'' \<and>
                 sku p \<noteq> Some ''SH-100'')
     (map_values (products (new_store 0)))"
proof -
  have "getProductBySku (new_store 0) ''SH-100'' = None"
    unfolding getProductBySku_def products_new_store
    by (simp add: sampleProducts_def)
  moreover have "getProductByName (new_store 0) ''Shirt'' = Some (sampleProducts ! 0)"
    unfolding getProductByName_def products_new_store
    by (simp add: sampleProducts_def toLowerCase_def lower_char_def)
  moreover have "list_all (\<lambda>p. name p \<noteq> ''Shirt'' \<and> toLowerCase (name p) \<noteq> toLowerCase ''Shirt'' \<and>
                 sku p \<noteq> Some ''SH-100'') (map_values (products (new_store 0)))"
    unfolding products_new_store
    by (simp add: sampleProducts_def toLowerCase_def lower_char_def)
  ultimately show ?thesis
    by (simp add: addNewProduct_execute_def)
qed

section \<open>Sales by date range\<close>

lemma count_list_filter:
  "count_list (filter P xs) x = (if P x then count_list xs x else 0)"
  by (induction xs) auto

text \<open>
  Claim C6. \<open>getSalesByDateRange\<close> returns exactly the sales of the log whose timestamp
  \<open>t\<close> satisfies \<open>start \<le> t \<le> end\<close>, both bounds included: a sale is in the result if
  and only if it is in the log and in the range, every such sale occurs as often as in
  the log, and the result is a subsequence of the log, so the order of the log is kept.
\<close>

theorem getSalesByDateRange_inclusive:
  "(\<forall>x. x \<in> set (getSalesByDateRange st s e) \<longleftrightarrow>
          x \<in> set (sales st) \<and> s \<le> timestamp x \<and> timestamp x \<le> e) \<and>
   subseq (getSalesByDateRange st s e) (sales st) \<and>
   (\<forall>x. count_list (getSalesByDateRange st s e) x =
          (if s \<le> timestamp x \<and> timestamp x \<le> e then count_list (sales st) x else 0))"
  by (auto simp: getSalesByDateRange_def count_list_filter)

theorem getSalesByDateRange_inclusive_witness:
  "sampleSales 0 ! 0 \<in> set (getSalesByDateRange (new_store 0) (- 86400000) (- 7200000)) \<and>
   timestamp (sampleSales 0 ! 0) = - 86400000 \<and>
   sampleSales 0 ! 3 \<in> set (getSalesByDateRange (new_store 0) (- 86400000) (- 7200000)) \<and>
   timestamp (sampleSales 0 ! 3) = - 7200000 \<and>
   sampleSales 0 ! 4 \<notin> set (getSalesByDateRange (new_store 0) (- 86400000) (- 7200000)) \<and>
   getSalesByDateRange (new_store 0) (- 86400000) (- 7200000) = take 4 (sampleSales 0)"
proof -
  have t: "timestamp (sampleSales 0 ! 0) = - 86400000" "timestamp (sampleSales 0 ! 3) = - 7200000"
    "timestamp (sampleSales 0 ! 4) = - 604800000"
    by (simp_all add: sampleSales_def)
  have m: "sampleSales 0 ! 0 \<in> set (sales (new_store 0))"
    "sampleSales 0 ! 3 \<in> set (sales (new_store 0))"
    unfolding sales_new_store by (simp_all add: sampleSales_def)
  have e: "getSalesByDateRange (new_store 0) (- 86400000) (- 7200000) = take 4 (sampleSales 0)"
    unfolding getSalesByDateRange_def sales_new_store by (simp add: sampleSales_def)
  from getSalesByDateRange_inclusive [of "new_store 0" "- 86400000" "- 7200000"] t m e
  show ?thesis by simp
qed

section \<open>Analytics on an empty selection\<close>

text \<open>
  Claim C7. \<open>getSalesAnalytics\<close> has no failing branch: it returns metrics for every
  input. When the selected sales (the sales in the date range, or the whole log when
  no range is given) are empty, the metrics have \<open>totalSales = 0\<close>, \<open>totalOrders = 0\<close>
  and \<open>avgOrderValue = 0\<close>, the guard \<open>totalOrders > 0\<close> keeping the division away; the
  product ranking and the category performance are empty.
\<close>

theorem getSalesAnalytics_empty:
  assumes "salesData st dr = []"
  shows "totalSales (getSalesAnalytics st dr cal) = 0 \<and>
         totalOrders (getSalesAnalytics st dr cal) = 0 \<and>
         avgOrderValue (getSalesAnalytics st dr cal) = 0 \<and>
         topProducts (getSalesAnalytics st dr cal) = [] \<and>
         categoryPerformance (getSalesAnalytics st dr cal) = []"
  using assms
  by (simp add: getSalesAnalytics_def sum_totalAmount_def productSales_entries_def
      productSales_def categoryStats_def slice0_def sort_desc_def)

theorem getSalesAnalytics_empty_witness:
  "salesData (new_store 0) (Some \<lparr>start = 5, end_range = 10\<rparr>) = [] \<and>
   sales (new_store 0) \<noteq> [] \<and>
   totalSales (getSalesAnalytics (new_store 0) (Some \<lparr>start = 5, end_range = 10\<rparr>)
     \<lparr>now_cal = 20, today = 0, thisWeekStart = 0, thisMonthStart = 0\<rparr>) = 0 \<and>
   totalOrders (getSalesAnalytics (new_store 0) (Some \<lparr>start = 5, end_range = 10\<rparr>)
     \<lparr>now_cal = 20, today = 0, thisWeekStart = 0, thisMonthStart = 0\<rparr>) = 0 \<and>
   avgOrderValue (getSalesAnalytics (new_store 0) (Some \<lparr>start = 5, end_range = 10\<rparr>)
     \<lparr>now_cal = 20, today = 0, thisWeekStart = 0, thisMonthStart = 0\<rparr>) = 0 \<and>
   salesData empty_store None = [] \<and>
   avgOrderValue (getSalesAnalytics empty_store None
     \<lparr>now_cal = 20, today = 0, thisWeekStart = 0, thisMonthStart = 0\<rparr>) = 0"
proof -
  have a: "salesData (new_store 0) (Some \<lparr>start = 5, end_range = 10\<rparr>) = []"
    unfolding salesData_def getSalesByDateRange_def sales_new_store
    by (simp add: sampleSales_def)
  have b: "salesData empty_store None = []"
    by (simp add: salesData_def empty_store_def)
  have c: "sales (new_store 0) \<noteq> []"
    unfolding sales_new_store by (simp add: sampleSales_def)
  from a b c
    getSalesAnalytics_empty [OF a,
      of "\<lparr>now_cal = 20, today = 0, thisWeekStart = 0, thisMonthStart = 0\<rparr>"]
    getSalesAnalytics_empty [OF b,
      of "\<lparr>now_cal = 20, today = 0, thisWeekStart = 0, thisMonthStart = 0\<rparr>"]
  show ?thesis by simp
qed

section \<open>Export and import\<close>

text \<open>
  The product map of a store is well formed: its keys are distinct and every product
  is stored under its own id. The constructor establishes this and every operation
  keeps it, so it holds in every state the store can reach.
\<close>

lemma list_all_entries_map_set:
  "list_all Q m \<Longrightarrow> Q (k, v) \<Longrightarrow> list_all Q (map_set k v m)"
  by (induction m) auto

lemma list_all_entries_map_delete:
  "list_all Q m \<Longrightarrow> list_all Q (map_delete k m)"
  by (induction m) auto

lemma distinct_keys_map_set:
  "distinct (map_keys m) \<Longrightarrow> distinct (map_keys (map_set k v m))"
  by (simp add: map_keys_map_set)

lemma set_map_delete_subset: "set (map_delete k m) \<subseteq> set m"
  by (induction m) (auto split: if_splits)

lemma in_keys_map_delete:
  "x \<in> set (map_keys (map_delete k m)) \<Longrightarrow> x \<in> set (map_keys m)"
  using set_map_delete_subset [of k m] by (auto simp: map_keys_def)

lemma distinct_keys_map_delete:
  "distinct (map_keys m) \<Longrightarrow> distinct (map_keys (map_delete k m))"
proof (induction m)
  case Nil
  then show ?case by (simp add: map_keys_def)
next
  case (Cons e m)
  obtain k' v' where e: "e = (k', v')" by (cases e)
  from Cons.prems have d: "distinct (map_keys m)" and n: "k' \<notin> set (map_keys m)"
    by (simp_all add: e map_keys_def)
  from n in_keys_map_delete [of k' k m] have "k' \<notin> set (map_keys (map_delete k m))"
    by blast
  with Cons.IH [OF d] d show ?case
    by (simp add: e map_keys_def)
qed

lemma store_wf_set_product:
  assumes "store_wf st" and "id_prod p = k"
  shows "store_wf (st\<lparr>products := map_set k p (products st)\<rparr>)"
  using assms by (simp add: store_wf_def distinct_keys_map_set list_all_entries_map_set)

lemma store_wf_register: "store_wf (register p st) = store_wf st"
  by (simp add: store_wf_def)

lemma store_wf_load_product: "store_wf st \<Longrightarrow> store_wf (load_product st p)"
  by (simp add: load_product_def store_wf_register store_wf_set_product)

lemma store_wf_foldl_load: "store_wf st \<Longrightarrow> store_wf (foldl load_product st ps)"
  by (induction ps arbitrary: st) (simp_all add: store_wf_load_product)

lemma store_wf_sales [simp]: "store_wf (st\<lparr>sales := ss\<rparr>) = store_wf st"
  by (simp add: store_wf_def)

lemma store_wf_empty: "store_wf \<lparr>products = [], sales = ss, categories = cs, collections = ls\<rparr>"
  by (simp add: store_wf_def map_keys_def)

lemma store_wf_new_store: "store_wf (new_store t)"
  by (simp add: new_store_def initializeWithSampleData_def empty_store_def
      store_wf_foldl_load store_wf_empty)

lemma store_wf_importData: "store_wf (importData st data)"
proof -
  have "store_wf (st\<lparr>products := [], sales := [], categories := [], collections := []\<rparr>)"
    by (simp add: store_wf_def map_keys_def)
  then show ?thesis
    by (simp add: importData_def store_wf_foldl_load)
qed

lemma store_wf_get_id:
  assumes "store_wf st" and "map_get k (products st) = Some p"
  shows "id_prod p = k"
proof -
  from assms(2) have "(k, p) \<in> set (products st)"
    by (rule map_get_Some_mem)
  with assms(1) show ?thesis
    by (auto simp: store_wf_def list_all_iff)
qed

lemma id_prod_merge_updates [simp]: "id_prod (merge_updates p u) = id_prod p"
  by (simp add: merge_updates_def)

lemma store_wf_addProduct: "store_wf st \<Longrightarrow> store_wf (snd (addProduct st d now rnd))"
  by (simp add: addProduct_def Let_def store_wf_load_product)

lemma store_wf_updateProduct:
  "store_wf st \<Longrightarrow> store_wf (snd (updateProduct st pid u now))"
  by (auto simp: updateProduct_def Let_def store_wf_register store_wf_set_product
      store_wf_get_id split: option.splits)

lemma store_wf_updateStock:
  "store_wf st \<Longrightarrow> store_wf (snd (updateStock st pid stockOp now))"
  by (auto simp: updateStock_def store_wf_set_product store_wf_get_id split: option.splits)

lemma store_wf_addSale: "store_wf st \<Longrightarrow> store_wf (snd (addSale st saleData now rnd))"
  by (simp add: addSale_def Let_def store_wf_updateStock)

lemma store_wf_deleteProduct: "store_wf st \<Longrightarrow> store_wf (snd (deleteProduct st pid))"
  by (simp add: deleteProduct_def store_wf_def distinct_keys_map_delete
      list_all_entries_map_delete)

lemma store_wf_apply_op: "store_wf st \<Longrightarrow> store_wf (apply_op st x)"
  by (cases x)
    (simp_all add: store_wf_addProduct store_wf_updateProduct store_wf_updateStock
      store_wf_addSale store_wf_importData store_wf_deleteProduct)

lemma store_wf_run_ops: "store_wf st \<Longrightarrow> store_wf (run_ops st ops)"
  unfolding run_ops_def
  by (induction ops arbitrary: st) (simp_all add: store_wf_apply_op)

lemma store_wf_reachable: "store_wf (run_ops (new_store t) ops)"
  by (rule store_wf_run_ops) (rule store_wf_new_store)

lemma foldl_load_product_appends:
  assumes "distinct (map_keys (products st @ ps))"
    and "list_all (\<lambda>(k, p). id_prod p = k) ps"
  shows "products (foldl load_product st (map_values ps)) = products st @ ps"
  using assms
proof (induction ps arbitrary: st)
  case Nil
  then show ?case by (simp add: map_values_def)
next
  case (Cons e ps)
  obtain k p where e: "e = (k, p)" by (cases e)
  from Cons.prems(2) have k: "id_prod p = k" and rest: "list_all (\<lambda>(k, p). id_prod p = k) ps"
    by (simp_all add: e)
  from Cons.prems(1) have new: "k \<notin> set (map_keys (products st))"
    by (auto simp: e map_keys_def)
  have step: "products (load_product st p) = products st @ [(k, p)]"
    by (simp add: k map_set_new [OF new])
  have "distinct (map_keys (products (load_product st p) @ ps))"
    unfolding step using Cons.prems(1) by (simp add: e map_keys_def)
  from Cons.IH [OF this rest] show ?case
    unfolding step by (simp add: e map_values_def)
qed

lemma sales_foldl_load [simp]: "sales (foldl load_product st ps) = sales st"
  by (induction ps arbitrary: st) simp_all

text \<open>
  Claim C8. For every store state (the product map being well formed, as it is in
  every reachable state) \<open>importData(exportData())\<close> restores a product map identical
  to the exported one, with the same ids mapped to equal records in the same order,
  and a sale log equal to the exported one in the same order.
\<close>

theorem importData_exportData_roundtrip:
  assumes "store_wf st"
  shows "products (importData st (exportData st)) = products st \<and>
         sales (importData st (exportData st)) = sales st \<and>
         (\<forall>pid. getProduct (importData st (exportData st)) pid = getProduct st pid)"
proof -
  let ?cleared = "st\<lparr>products := [], sales := [], categories := [], collections := []\<rparr>"
  from assms have "distinct (map_keys (products ?cleared @ products st))"
    and "list_all (\<lambda>(k, p). id_prod p = k) (products st)"
    by (simp_all add: store_wf_def)
  then have "products (foldl load_product ?cleared (map_values (products st))) = products st"
    using foldl_load_product_appends [of ?cleared "products st"] by simp
  then show ?thesis
    by (simp add: importData_def exportData_def getProduct_def)
qed

theorem importData_exportData_roundtrip_witness:
  "store_wf (run_ops (new_store 0)
     [OpUpdateStock ''12349'' \<lparr>operation = Subtract, quantity_op = 9, reason = None\<rparr> 8,
      OpDeleteProduct ''12346'',
      OpAddSale (sampleSales 0 ! 1) 11 ''b7c2d9e4f'']) \<and>
   products (importData
     (run_ops (new_store 0)
       [OpUpdateStock ''12349'' \<lparr>operation = Subtract, quantity_op = 9, reason = None\<rparr> 8,
        OpDeleteProduct ''12346'',
        OpAddSale (sampleSales 0 ! 1) 11 ''b7c2d9e4f''])
     (exportData (run_ops (new_store 0)
       [OpUpdateStock ''12349'' \<lparr>operation = Subtract, quantity_op = 9, reason = None\<rparr> 8,
        OpDeleteProduct ''12346'',
        OpAddSale (sampleSales 0 ! 1) 11 ''b7c2d9e4f'']))) =
   products (run_ops (new_store 0)
       [OpUpdateStock ''12349'' \<lparr>operation = Subtract, quantity_op = 9, reason = None\<rparr> 8,
        OpDeleteProduct ''12346'',
        OpAddSale (sampleSales 0 ! 1) 11 ''b7c2d9e4f'']) \<and>
   sales (importData
     (run_ops (new_store 0)
       [OpUpdateStock ''12349'' \<lparr>operation = Subtract, quantity_op = 9, reason = None\<rparr> 8,
        OpDeleteProduct ''12346'',
        OpAddSale (sampleSales 0 ! 1) 11 ''b7c2d9e4f''])
     (exportData (run_ops (new_store 0)
       [OpUpdateStock ''12349'' \<lparr>operation = Subtract, quantity_op = 9, reason = None\<rparr> 8,
        OpDeleteProduct ''12346'',
        OpAddSale (sampleSales 0 ! 1) 11 ''b7c2d9e4f'']))) =
   sales (run_ops (new_store 0)
       [OpUpdateStock ''12349'' \<lparr>operation = Subtract, quantity_op = 9, reason = None\<rparr> 8,
        OpDeleteProduct ''12346'',
        OpAddSale (sampleSales 0 ! 1) 11 ''b7c2d9e4f'']) \<and>
   length (products (run_ops (new_store 0)
       [OpUpdateStock ''12349'' \<lparr>operation = Subtract, quantity_op = 9, reason = None\<rparr> 8,
        OpDeleteProduct ''12346'',
        OpAddSale (sampleSales 0 ! 1) 11 ''b7c2d9e4f''])) = 5"
proof -
  let ?st = "run_ops (new_store 0)
       [OpUpdateStock ''12349'' \<lparr>operation = Subtract, quantity_op = 9, reason = None\<rparr> 8,
        OpDeleteProduct ''12346'',
        OpAddSale (sampleSales 0 ! 1) 11 ''b7c2d9e4f'']"
  have wf: "store_wf ?st"
    by (rule store_wf_reachable)
  have len: "length (products ?st) = 5"
    by (simp add: run_ops_def updateStock_def newStock_def deleteProduct_def addSale_def
        new_store_def initializeWithSampleData_def sampleProducts_def sampleSales_def
        empty_store_def load_product_def register_def set_add_def Let_def)
  from importData_exportData_roundtrip [OF wf] wf len show ?thesis
    by simp
qed

section \<open>Top selling products\<close>














lemma products_importData_sample:
  "map_values (products (importData st (sampleProducts, ss))) = sampleProducts"
  by (simp add: importData_def sampleProducts_def load_product_def register_def set_add_def
      map_values_def)












section \<open>Orphaned sales in the metrics\<close>










lemma salesData_products [simp]: "salesData (st\<lparr>products := ps\<rparr>) dr = salesData st dr"
  by (cases dr) (simp_all add: salesData_def getSalesByDateRange_def)








end
